theory Spec2Isabelle
  imports Complex_Main "HOL-Library.Mapping" "HOL-Library.AList_Mapping"
begin

section \<open>Strings and paths\<close>

text \<open>
  Python \<open>str\<close> values are modelled as \<open>string\<close>: a list of characters whose code
  points lie below 256. The helpers below are the \<open>str\<close> and \<open>os.path\<close> (POSIX
  flavour) operations that \<open>app.py\<close> calls, on these characters: \<open>str.lower\<close> maps
  \<open>A\<close> to \<open>Z\<close> and the capital letters U+00C0 to U+00DE (U+00D7, the multiplication
  sign, is not a letter), and \<open>str.strip\<close> removes the characters for which
  \<open>str.isspace\<close> holds, which below 256 are U+0009 to U+000D, U+001C to U+001F, the
  space, U+0085 and U+00A0.
\<close>

definition startswith :: "string \<Rightarrow> string \<Rightarrow> bool" where
  "startswith s p = (take (length p) s = p)"

definition endswith :: "string \<Rightarrow> string \<Rightarrow> bool" where
  "endswith s p = (length p \<le> length s \<and> drop (length s - length p) s = p)"

definition upper_letters :: string where
  "upper_letters =
     ''ABCDEFGHIJKLMNOPQRSTUVWXYZ'' @
     [CHR 0xC0, CHR 0xC1, CHR 0xC2, CHR 0xC3, CHR 0xC4, CHR 0xC5, CHR 0xC6, CHR 0xC7,
      CHR 0xC8, CHR 0xC9, CHR 0xCA, CHR 0xCB, CHR 0xCC, CHR 0xCD, CHR 0xCE, CHR 0xCF,
      CHR 0xD0, CHR 0xD1, CHR 0xD2, CHR 0xD3, CHR 0xD4, CHR 0xD5, CHR 0xD6,
      CHR 0xD8, CHR 0xD9, CHR 0xDA, CHR 0xDB, CHR 0xDC, CHR 0xDD, CHR 0xDE]"

definition lower_letters :: string where
  "lower_letters =
     ''abcdefghijklmnopqrstuvwxyz'' @
     [CHR 0xE0, CHR 0xE1, CHR 0xE2, CHR 0xE3, CHR 0xE4, CHR 0xE5, CHR 0xE6, CHR 0xE7,
      CHR 0xE8, CHR 0xE9, CHR 0xEA, CHR 0xEB, CHR 0xEC, CHR 0xED, CHR 0xEE, CHR 0xEF,
      CHR 0xF0, CHR 0xF1, CHR 0xF2, CHR 0xF3, CHR 0xF4, CHR 0xF5, CHR 0xF6,
      CHR 0xF8, CHR 0xF9, CHR 0xFA, CHR 0xFB, CHR 0xFC, CHR 0xFD, CHR 0xFE]"

definition lower_char :: "char \<Rightarrow> char" where
  "lower_char c =
     (case map_of (zip upper_letters lower_letters) c of
        Some d \<Rightarrow> d
      | None \<Rightarrow> c)"

definition lower :: "string \<Rightarrow> string" where
  "lower s = map lower_char s"

definition is_space :: "char \<Rightarrow> bool" where
  "is_space c \<longleftrightarrow>
     c \<in> set [CHR 0x09, CHR 0x0A, CHR 0x0B, CHR 0x0C, CHR 0x0D,
                CHR 0x1C, CHR 0x1D, CHR 0x1E, CHR 0x1F, CHR '' '', CHR 0x85, CHR 0xA0]"

definition strip :: "string \<Rightarrow> string" where
  "strip s = rev (dropWhile is_space (rev (dropWhile is_space s)))"

text \<open>\<open>s.split('.')[0]\<close>: the text before the first dot.\<close>

definition split_dot_head :: "string \<Rightarrow> string" where
  "split_dot_head s = takeWhile (\<lambda>c. c \<noteq> CHR ''.'') s"

text \<open>\<open>os.path.join(a, b)\<close> for two components.\<close>

definition path_join :: "string \<Rightarrow> string \<Rightarrow> string" where
  "path_join a b =
     (if startswith b ''/'' then b
      else if a = [] \<or> endswith a ''/'' then a @ b
      else a @ ''/'' @ b)"

definition basename :: "string \<Rightarrow> string" where
  "basename p = rev (takeWhile (\<lambda>c. c \<noteq> CHR ''/'') (rev p))"

definition dirname :: "string \<Rightarrow> string" where
  "dirname p =
     (let head = rev (dropWhile (\<lambda>c. c \<noteq> CHR ''/'') (rev p))
      in if head \<noteq> [] \<and> \<not> list_all (\<lambda>c. c = CHR ''/'') head
         then rev (dropWhile (\<lambda>c. c = CHR ''/'') (rev head))
         else head)"

text \<open>
  \<open>os.path.splitext(p)[1]\<close>: the part of the last path component from its last dot on,
  where dots that lead the component do not count.
\<close>

definition splitext_ext :: "string \<Rightarrow> string" where
  "splitext_ext p =
     (let name = dropWhile (\<lambda>c. c = CHR ''.'') (basename p)
      in if CHR ''.'' \<in> set name
         then CHR ''.'' # rev (takeWhile (\<lambda>c. c \<noteq> CHR ''.'') (rev name))
         else [])"

text \<open>\<open>str(n)\<close> for the integers that are formatted into the log file name.\<close>

definition digit_char :: "nat \<Rightarrow> char" where
  "digit_char d = ''0123456789'' ! d"

fun str_nat :: "nat \<Rightarrow> string" where
  "str_nat n = (if n < 10 then [digit_char n] else str_nat (n div 10) @ [digit_char (n mod 10)])"

definition str_int :: "int \<Rightarrow> string" where
  "str_int i = (if i < 0 then CHR ''-'' # str_nat (nat (- i)) else str_nat (nat i))"

section \<open>Admission controller\<close>

text \<open>
  The thresholds are read once from the process environment
  (\<open>CPU_THRESHOLD\<close>, \<open>MEMORY_THRESHOLD\<close>, \<open>MAX_RUNNING_PROCESSES\<close>). The two percentages
  are Python floats that are only ever compared; they are modelled as reals (a finite
  float is a real, and the comparison is exact; a threshold that is not a number is not
  modelled).
\<close>

record config =
  CPU_THRESHOLD :: real
  MEMORY_THRESHOLD :: real
  MAX_RUNNING_PROCESSES :: int

datatype reason =
    TooManyProcesses int int
  | HighCPU real
  | HighMemory real

text \<open>
  \<open>should_stop_due_to_load\<close>, applied to the triple that \<open>get_system_load\<close> returned:
  \<open>(True, reason)\<close> rejects, \<open>(False, None)\<close> admits.
\<close>

definition should_stop_due_to_load :: "config \<Rightarrow> real \<times> real \<times> int \<Rightarrow> bool \<times> reason option" where
  "should_stop_due_to_load cfg sample =
     (case sample of (load, memory, process_count) \<Rightarrow>
        if process_count \<ge> MAX_RUNNING_PROCESSES cfg
          then (True, Some (TooManyProcesses process_count (MAX_RUNNING_PROCESSES cfg)))
        else if load \<ge> CPU_THRESHOLD cfg then (True, Some (HighCPU load))
        else if memory \<ge> MEMORY_THRESHOLD cfg then (True, Some (HighMemory memory))
        else (False, None))"

section \<open>The host environment\<close>

text \<open>
  Everything \<open>app.py\<close> asks of the operating system, the interpreter and \<open>pip\<close> is
  a field of the record \<open>host\<close>: the answers the environment gives at the time of a call.
  A Python call that returns or raises is a value of \<open>outcome\<close>.
\<close>

datatype 'a outcome = Returns 'a | Raises string

text \<open>
  A directory as \<open>os.walk\<close> lists it: the names of its non-directory entries (the
  \<open>files\<close> of the walk: regular files, and also links, FIFOs, sockets and devices) and
  the sub-directories the walk descends into, both in listing order.
\<close>

datatype dir_tree = Dir (dir_files: "string list") (dir_subdirs: "(string \<times> dir_tree) list")

text \<open>
  The statements of a parsed Python file, as far as \<open>ast.walk\<close> can tell them apart when
  it looks for imports: \<open>Import names\<close> is \<open>import a.b, c\<close> with its alias names,
  \<open>ImportFrom module level\<close> is \<open>from ..m import x\<close> (the module is absent in
  \<open>from . import x\<close>; \<open>level\<close> counts the leading dots), \<open>Compound body\<close> is any
  statement that contains statements (\<open>def\<close>, \<open>class\<close>, \<open>if\<close>, \<open>for\<close>, \<open>while\<close>,
  \<open>with\<close>, \<open>try\<close>), and \<open>OtherStmt\<close> is any other statement.
\<close>

datatype stmt =
    Import "string list"
  | ImportFrom "string option" nat
  | Compound "stmt list"
  | OtherStmt

text \<open>
  Reading a text file with \<open>open(path).readlines()\<close>: \<open>Missing\<close> when
  \<open>os.path.exists\<close> is false, \<open>Unreadable e\<close> when it exists and opening or reading raises
  \<open>e\<close>, and otherwise its lines, each with its line terminator.
\<close>

datatype file_read = Missing | Unreadable string | Lines "string list"

text \<open>\<open>subprocess.run(cmd, timeout=t)\<close>: a return code, \<open>TimeoutExpired\<close>, or another exception.\<close>

datatype run_outcome = ExitCode int | TimeoutExpired | RunError string

text \<open>\<open>importlib.import_module(name)\<close>: imported, \<open>ImportError\<close>, or another exception.\<close>

datatype import_result = Imported | ImportError | ImportRaises string

text \<open>
  What a live process does when it is sent \<open>terminate()\<close> and then waited for with
  \<open>wait(timeout=t)\<close>: it exits within the \<open>t\<close> seconds with a return code, it is still
  alive after them (\<open>subprocess.TimeoutExpired\<close>), or signalling it raises.
\<close>

datatype term_outcome = ExitsWithin int | StillAlive | TermRaises string

record host =
  psutil_sample :: "(real \<times> real) option"
  clock :: nat
  sys_executable :: string
  listdir_tree :: "string \<rightharpoonup> dir_tree"
  isfile :: "string \<Rightarrow> bool"
  read_file :: "string \<Rightarrow> file_read"
  ast_parse :: "string \<Rightarrow> stmt list option"
  import_module :: "string \<Rightarrow> import_result"
  subprocess_run :: "string list \<Rightarrow> nat \<Rightarrow> run_outcome"
  LOGS_DIR :: string
  popen :: "string list \<Rightarrow> string \<Rightarrow> string \<Rightarrow> nat outcome"
  send_started :: "string option"
  on_terminate :: "nat \<Rightarrow> nat \<Rightarrow> term_outcome"

text \<open>
  \<open>psutil_sample\<close> is \<open>(cpu_percent, virtual_memory().percent)\<close>, or \<open>None\<close> when
  \<open>psutil\<close> raises; \<open>clock\<close> is the current time in seconds; \<open>sys_executable\<close> is
  the path of the Python interpreter and \<open>LOGS_DIR\<close> the directory of the log files;
  \<open>listdir_tree p\<close> is the
  tree under \<open>p\<close> when \<open>os.path.isdir p\<close>; \<open>isfile p\<close> is \<open>os.path.isfile(p)\<close>:
  whether \<open>p\<close> is a regular file or a link that leads to one (nothing is assumed about
  how its answers relate to the listing of a directory); \<open>ast_parse p\<close> is the syntax tree of the
  file \<open>p\<close>, or \<open>None\<close> when reading or parsing it raises; \<open>popen cmd cwd log\<close> is
  opening the log file for writing and \<open>subprocess.Popen(cmd, cwd=cwd)\<close> with both output
  streams sent to it: the pid of the new process, or the exception raised;
  \<open>send_started\<close> is the exception that \<open>bot.send_message\<close> raises for the message
  that reports a started process, or \<open>None\<close> when the message is delivered;
  \<open>on_terminate pid t\<close> is the reaction of process \<open>pid\<close> to \<open>terminate()\<close> followed by
  \<open>wait(timeout=t)\<close>.
\<close>

definition path_exists :: "host \<Rightarrow> string \<Rightarrow> bool" where
  "path_exists h p \<longleftrightarrow> read_file h p \<noteq> Missing"

section \<open>Archive extractor\<close>

datatype archive_format = Zip | TarGz | Tar

text \<open>
  \<open>extract_archive\<close>. The parameter \<open>extractall fmt file_path extract_dir\<close> stands for
  opening the archive with \<open>zipfile.ZipFile\<close> (\<open>Zip\<close>), \<open>tarfile.open(.., 'r:gz')\<close>
  (\<open>TarGz\<close>) or \<open>tarfile.open(.., 'r')\<close> (\<open>Tar\<close>) and calling \<open>extractall\<close>. The
  second component of the result lists the library calls that were made.
\<close>

definition extract_archive ::
  "(archive_format \<Rightarrow> string \<Rightarrow> string \<Rightarrow> unit outcome) \<Rightarrow> string \<Rightarrow> string
     \<Rightarrow> (bool \<times> string option) outcome \<times> archive_format list" where
  "extract_archive extractall file_path extract_dir =
     (let (body, calls) =
        (if endswith (lower file_path) ''.zip'' then
           (case extractall Zip file_path extract_dir of
              Raises e \<Rightarrow> Raises e | Returns _ \<Rightarrow> Returns (True, None), [Zip])
         else if endswith (lower file_path) ''.tar.gz'' \<or> endswith (lower file_path) ''.tgz'' then
           (case extractall TarGz file_path extract_dir of
              Raises e \<Rightarrow> Raises e | Returns _ \<Rightarrow> Returns (True, None), [TarGz])
         else if endswith (lower file_path) ''.tar'' then
           (case extractall Tar file_path extract_dir of
              Raises e \<Rightarrow> Raises e | Returns _ \<Rightarrow> Returns (True, None), [Tar])
         else (Returns (False, Some ''Unsupported archive format''), []))
      in (case body of
            Raises e \<Rightarrow> Returns (False, Some e)
          | Returns r \<Rightarrow> Returns r, calls))"

text \<open>The container format that a file name's suffix selects, if any.\<close>

definition suffix_format :: "string \<Rightarrow> archive_format option" where
  "suffix_format file_path =
     (if endswith (lower file_path) ''.zip'' then Some Zip
      else if endswith (lower file_path) ''.tar.gz'' \<or> endswith (lower file_path) ''.tgz''
        then Some TarGz
      else if endswith (lower file_path) ''.tar'' then Some Tar
      else None)"

section \<open>Entry-point resolver\<close>

text \<open>\<open>os.walk(directory)\<close>, top-down: each directory with the names of its files.\<close>

fun walk :: "string \<Rightarrow> dir_tree \<Rightarrow> (string \<times> string list) list"
  and walk_dirs :: "string \<Rightarrow> (string \<times> dir_tree) list \<Rightarrow> (string \<times> string list) list" where
  "walk dir (Dir fs ds) = (dir, fs) # walk_dirs dir ds"
| "walk_dirs dir [] = []"
| "walk_dirs dir ((name, t) # ds) = walk (path_join dir name) t @ walk_dirs dir ds"

definition priority_files :: "string list" where
  "priority_files =
     [''main.py'', ''bot.py'', ''app.py'', ''server.py'', ''index.py'', ''script.py'',
      ''main.js'', ''bot.js'', ''app.js'', ''server.js'', ''index.js'', ''script.js'']"

text \<open>The first element, in list order, for which \<open>f\<close> returns something: a loop with \<open>return\<close>.\<close>

fun first_some :: "('a \<Rightarrow> 'b option) \<Rightarrow> 'a list \<Rightarrow> 'b option" where
  "first_some f [] = None"
| "first_some f (x # xs) = (case f x of Some y \<Rightarrow> Some y | None \<Rightarrow> first_some f xs)"

text \<open>
  The three loops of \<open>find_main_file\<close>. The first asks \<open>os.path.isfile\<close> (the parameter
  \<open>is_file\<close>) for the path of each priority name under the directory; the other two go
  through \<open>os.walk(directory)\<close>, whose result is the parameter \<open>t\<close>, and look at the
  \<open>files\<close> of each directory.
\<close>

definition root_priority :: "(string \<Rightarrow> bool) \<Rightarrow> string \<Rightarrow> string option" where
  "root_priority is_file directory =
     first_some (\<lambda>file_name. let file_path = path_join directory file_name
                              in if is_file file_path then Some file_path else None)
       priority_files"

definition walk_priority :: "string \<Rightarrow> dir_tree \<Rightarrow> string option" where
  "walk_priority directory t =
     first_some (\<lambda>(root, fs).
         first_some (\<lambda>file_name. if file_name \<in> set fs
                                  then Some (path_join root file_name) else None)
           priority_files)
       (walk directory t)"

definition walk_fallback :: "string \<Rightarrow> dir_tree \<Rightarrow> string option" where
  "walk_fallback directory t =
     first_some (\<lambda>(root, fs).
         first_some (\<lambda>file. if endswith file ''.py'' \<or> endswith file ''.js''
                             then Some (path_join root file) else None)
           fs)
       (walk directory t)"

definition find_main_file :: "(string \<Rightarrow> bool) \<Rightarrow> string \<Rightarrow> dir_tree \<Rightarrow> string option" where
  "find_main_file is_file directory t =
     (case root_priority is_file directory of
        Some file_path \<Rightarrow> Some file_path
      | None \<Rightarrow>
          (case walk_priority directory t of
             Some file_path \<Rightarrow> Some file_path
           | None \<Rightarrow> walk_fallback directory t))"

section \<open>Dependency installer\<close>

text \<open>\<open>sep.join(xs)\<close>.\<close>

fun join_with :: "string \<Rightarrow> string list \<Rightarrow> string" where
  "join_with sep [] = []"
| "join_with sep [x] = x"
| "join_with sep (x # y # ys) = x @ sep @ join_with sep (y # ys)"

text \<open>
  The list comprehension of \<open>install_requirements_from_file\<close>:
  \<open>[line.strip() for line in f if line.strip() and not line.startswith('#')]\<close>.
\<close>

definition read_requirements :: "string list \<Rightarrow> string list" where
  "read_requirements ls =
     map strip (filter (\<lambda>line. strip line \<noteq> [] \<and> \<not> startswith line ''#'') ls)"

text \<open>
  The installation loop. Its state is \<open>(success_count, failed_count, failed_packages)\<close>
  and, as a fourth component, the \<open>subprocess.run\<close> calls made so far, each with its
  command line and its timeout in seconds.
\<close>

type_synonym install_state = "nat \<times> nat \<times> string list \<times> (string list \<times> nat) list"

fun install_each :: "host \<Rightarrow> string list \<Rightarrow> install_state \<Rightarrow> install_state" where
  "install_each h [] acc = acc"
| "install_each h (package # rest) (success_count, failed_count, failed_packages, calls) =
     (let cmd = [sys_executable h, ''-m'', ''pip'', ''install'', package];
          calls' = calls @ [(cmd, 120)]
      in install_each h rest
           (case subprocess_run h cmd 120 of
              ExitCode returncode \<Rightarrow>
                if returncode = 0 then (success_count + 1, failed_count, failed_packages, calls')
                else (success_count, failed_count + 1, failed_packages @ [package], calls')
            | TimeoutExpired \<Rightarrow>
                (success_count, failed_count + 1,
                 failed_packages @ [package @ '' (timeout)''], calls')
            | RunError e \<Rightarrow>
                (success_count, failed_count + 1,
                 failed_packages @ [package @ '' ('' @ e @ '')''], calls')))"

definition install_requirements_from_file ::
  "host \<Rightarrow> string \<Rightarrow> (bool \<times> string) \<times> (string list \<times> nat) list" where
  "install_requirements_from_file h requirements_path =
     (case read_file h requirements_path of
        Missing \<Rightarrow> ((False, ''requirements.txt not found''), [])
      | Unreadable e \<Rightarrow> ((False, ''Error installing requirements: '' @ e), [])
      | Lines ls \<Rightarrow>
          (let requirements = read_requirements ls
           in if requirements = []
              then ((True, ''No requirements found in requirements.txt''), [])
              else
                (case install_each h requirements (0, 0, [], []) of
                   (success_count, failed_count, failed_packages, calls) \<Rightarrow>
                     ((failed_count = 0,
                       ''Installed '' @ str_nat success_count @ '' packages'' @
                       (if failed_count > 0
                        then '', failed '' @ str_nat failed_count @ '': '' @
                             join_with '', '' (take 5 failed_packages)
                        else [])),
                      calls))))"

text \<open>
  \<open>ast.walk(tree)\<close>: every node of the tree, the statements inside compound statements
  included. (The library yields them breadth first; here they come depth first, which
  makes no difference to the set that is collected.)
\<close>

fun ast_walk :: "stmt \<Rightarrow> stmt list"
  and ast_walk_body :: "stmt list \<Rightarrow> stmt list" where
  "ast_walk (Compound body) = Compound body # ast_walk_body body"
| "ast_walk (Import names) = [Import names]"
| "ast_walk (ImportFrom module_name level) = [ImportFrom module_name level]"
| "ast_walk OtherStmt = [OtherStmt]"
| "ast_walk_body [] = []"
| "ast_walk_body (s # ss) = ast_walk s @ ast_walk_body ss"

text \<open>The body of the loop of \<open>extract_imports\<close>: what one node adds to \<open>imports\<close>.\<close>

fun node_imports :: "stmt \<Rightarrow> string list" where
  "node_imports (Import names) = map split_dot_head names"
| "node_imports (ImportFrom module_name level) =
     (case module_name of
        Some m \<Rightarrow> if m \<noteq> [] \<and> level = 0 then [split_dot_head m] else []
      | None \<Rightarrow> [])"
| "node_imports (Compound body) = []"
| "node_imports OtherStmt = []"

text \<open>
  \<open>extract_imports\<close>. The Python function returns a set; the model returns its elements
  as a duplicate-free list, which is also the order in which \<open>install_missing_imports\<close>
  iterates over them (Python leaves that order open). An unreadable or unparsable file
  gives the empty set.
\<close>

definition extract_imports :: "host \<Rightarrow> string \<Rightarrow> string list" where
  "extract_imports h file_path =
     (case ast_parse h file_path of
        None \<Rightarrow> []
      | Some tree \<Rightarrow> remdups (concat (map node_imports (ast_walk_body tree))))"



definition pip_name_map :: "(string \<times> string) list" where
  "pip_name_map =
     [(''telebot'', ''pyTelegramBotAPI''),
      (''PIL'', ''Pillow''),
      (''cv2'', ''opencv-python''),
      (''Crypto'', ''pycryptodome''),
      (''bs4'', ''beautifulsoup4'')]"

text \<open>\<open>pip_name_map.get(module, module)\<close>.\<close>

definition pip_name :: "string \<Rightarrow> string" where
  "pip_name module_name =
     (case map_of pip_name_map module_name of Some n \<Rightarrow> n | None \<Rightarrow> module_name)"

text \<open>
  The first loop of \<open>install_missing_imports\<close>: only \<open>ImportError\<close> is caught, any other
  exception of \<open>import_module\<close> leaves the function.
\<close>

fun find_missing :: "host \<Rightarrow> string list \<Rightarrow> string list outcome" where
  "find_missing h [] = Returns []"
| "find_missing h (module_name # rest) =
     (case import_module h module_name of
        ImportRaises e \<Rightarrow> Raises e
      | Imported \<Rightarrow> find_missing h rest
      | ImportError \<Rightarrow>
          (case find_missing h rest of
             Raises e \<Rightarrow> Raises e
           | Returns missing \<Rightarrow> Returns (module_name # missing)))"

fun install_modules :: "host \<Rightarrow> string list \<Rightarrow> install_state \<Rightarrow> install_state" where
  "install_modules h [] acc = acc"
| "install_modules h (module_name # rest) (success_count, failed_count, failed_modules, calls) =
     (let cmd = [sys_executable h, ''-m'', ''pip'', ''install'', pip_name module_name];
          calls' = calls @ [(cmd, 120)]
      in install_modules h rest
           (case subprocess_run h cmd 120 of
              ExitCode returncode \<Rightarrow>
                if returncode = 0 then (success_count + 1, failed_count, failed_modules, calls')
                else (success_count, failed_count + 1, failed_modules @ [module_name], calls')
            | TimeoutExpired \<Rightarrow>
                (success_count, failed_count + 1, failed_modules @ [module_name], calls')
            | RunError e \<Rightarrow>
                (success_count, failed_count + 1, failed_modules @ [module_name], calls')))"

definition install_missing_imports ::
  "host \<Rightarrow> string list \<Rightarrow> (bool \<times> string) outcome \<times> (string list \<times> nat) list" where
  "install_missing_imports h imports =
     (case find_missing h imports of
        Raises e \<Rightarrow> (Raises e, [])
      | Returns missing \<Rightarrow>
          if missing = [] then (Returns (True, ''All imports available''), [])
          else
            (case install_modules h missing (0, 0, [], []) of
               (success_count, failed_count, failed_modules, calls) \<Rightarrow>
                 (Returns (failed_count = 0,
                    ''Installed '' @ str_nat success_count @ '' modules'' @
                    (if failed_count > 0
                     then '', failed '' @ str_nat failed_count @ '': '' @
                          join_with '', '' failed_modules
                     else [])),
                  calls)))"

section \<open>Supervisor state\<close>

text \<open>
  The rows of the \<open>files\<close> and \<open>runs\<close> tables (the columns the supervisor reads or
  writes), the entries of the in-memory dictionary \<open>processes\<close>, and the closure of a
  monitor thread. A \<open>Popen\<close> handle is identified by the pid of its process. Time
  stamps are seconds; the source stores them as ISO-8601 text, whose order is the same.
\<close>

datatype status = Stopped | Running

record file_record =
  f_user_id :: int
  f_orig_name :: string
  f_path :: string
  f_file_type :: string
  f_pid :: "nat option"
  f_status :: status

record run_record =
  r_file_id :: int
  r_started_at :: nat
  r_finished_at :: "nat option"
  r_pid :: nat
  r_log_path :: string
  r_exit_code :: "int option"

record live_job =
  j_process :: nat
  j_run_id :: nat
  j_log_path :: string
  j_started_at :: nat

record monitor =
  m_process :: nat
  m_file_id :: int
  m_run_id :: nat
  m_chat_id :: int
  m_original_name :: string

datatype proc_state = Alive | Exited int

datatype signal = SIGTERM | SIGKILL

text \<open>
  \<open>files\<close> and \<open>processes\<close> are keyed by file id. The rows of \<open>runs\<close> are kept in
  insertion order: the table only grows, so the row with id \<open>n\<close> is the \<open>n\<close>-th one.
  \<open>procs\<close> is the operating system's view of the processes that were spawned;
  \<open>spawned\<close>, \<open>sent_signals\<close> and \<open>removed_paths\<close> record, in order, the processes
  created, the signals sent and the paths deleted from disk; \<open>monitors\<close> are the monitor
  threads that were started.
\<close>

record sys =
  files :: "(int, file_record) mapping"
  runs :: "run_record list"
  processes :: "(int, live_job) mapping"
  procs :: "nat \<rightharpoonup> proc_state"
  spawned :: "(nat \<times> string list) list"
  sent_signals :: "(nat \<times> signal) list"
  monitors :: "monitor list"
  removed_paths :: "string list"

text \<open>
  What the bot sends to the chat front end. Sending is taken to succeed, and so are the
  calls of the database. The one exception is the message that reports a started process:
  it is sent inside the \<open>try\<close> block of \<open>start_file_process\<close>, between the registration of
  the job and the start of the monitor thread, so its failure (\<open>send_started\<close>) decides
  what the function does next.
\<close>

datatype message =
    CannotStart "reason option"
  | FileNotFound
  | NoMainFileInDirectory
  | FileNotFoundAt string
  | InstallingRequirements
  | RequirementsIssues string
  | RequirementsInstalled string
  | CheckingImports
  | ImportCheck string
  | UnsupportedFileType string
  | ProcessStarted string nat string
  | FailedToStart string
  | ProcessExited string int
  | ProcessStopped
  | FileDeleted
  | LogsFor string string
  | AccessDenied
  | FileManagement int string string bool "nat option"
  | YourFiles "(int \<times> string \<times> string \<times> status) list"

datatype event =
    SendMessage int message
  | AnswerCallback string
  | DeleteMessage int nat

subsection \<open>Database helpers\<close>

definition get_file_record :: "sys \<Rightarrow> int \<Rightarrow> file_record option" where
  "get_file_record st file_id = Mapping.lookup (files st) file_id"

definition remove_file_record :: "int \<Rightarrow> sys \<Rightarrow> sys" where
  "remove_file_record file_id st = st\<lparr>files := Mapping.delete file_id (files st)\<rparr>"

text \<open>\<open>SELECT .. FROM files WHERE user_id=? ORDER BY id DESC\<close>.\<close>

definition list_user_files :: "sys \<Rightarrow> int \<Rightarrow> (int \<times> file_record) list" where
  "list_user_files st user_id =
     concat (map (\<lambda>file_id.
         case Mapping.lookup (files st) file_id of
           Some r \<Rightarrow> if f_user_id r = user_id then [(file_id, r)] else []
         | None \<Rightarrow> [])
       (rev (Mapping.ordered_keys (files st))))"

definition record_run_start :: "host \<Rightarrow> int \<Rightarrow> nat \<Rightarrow> string \<Rightarrow> sys \<Rightarrow> nat \<times> sys" where
  "record_run_start h file_id pid log_path st =
     (Suc (length (runs st)),
      st\<lparr>runs := runs st @
            [\<lparr>r_file_id = file_id, r_started_at = clock h, r_finished_at = None,
              r_pid = pid, r_log_path = log_path, r_exit_code = None\<rparr>]\<rparr>)"

definition record_run_finish :: "host \<Rightarrow> nat \<Rightarrow> int \<Rightarrow> sys \<Rightarrow> sys" where
  "record_run_finish h run_id exit_code st =
     (if 0 < run_id \<and> run_id \<le> length (runs st)
      then st\<lparr>runs := (runs st)[run_id - 1 :=
                 (runs st ! (run_id - 1))\<lparr>r_finished_at := Some (clock h),
                                           r_exit_code := Some exit_code\<rparr>]\<rparr>
      else st)"

definition update_file_status :: "int \<Rightarrow> nat option \<Rightarrow> status \<Rightarrow> sys \<Rightarrow> sys" where
  "update_file_status file_id pid status st =
     st\<lparr>files := Mapping.map_entry file_id (\<lambda>r. r\<lparr>f_pid := pid, f_status := status\<rparr>) (files st)\<rparr>"

subsection \<open>System monitoring\<close>

definition get_system_load :: "host \<Rightarrow> sys \<Rightarrow> real \<times> real \<times> int" where
  "get_system_load h st =
     (case psutil_sample h of
        Some (cpu, mem) \<Rightarrow> (cpu, mem, int (Mapping.size (processes st)))
      | None \<Rightarrow> (0, 0, 0))"

section \<open>Process supervisor\<close>

subsection \<open>start\<close>

text \<open>
  The blocks of \<open>start_file_process\<close>, in the order of the source. Each is a definition of
  its own; \<open>start_file_process\<close> below chains them.

  ``Determine what to run'': the target file and the working directory, or the message
  with which the function returns.
\<close>

definition determine_target :: "host \<Rightarrow> string \<Rightarrow> message + string \<times> string" where
  "determine_target h file_path =
     (case listdir_tree h file_path of
        Some t \<Rightarrow>
          (case find_main_file (isfile h) file_path t of
             None \<Rightarrow> Inl NoMainFileInDirectory
           | Some main_file \<Rightarrow> Inr (main_file, dirname main_file))
      | None \<Rightarrow>
          if \<not> path_exists h file_path then Inl (FileNotFoundAt file_path)
          else Inr (file_path, dirname file_path))"

text \<open>
  ``Install requirements if present'', for a \<open>.py\<close> target: the messages sent, and the
  exception that leaves the block, if any (only \<open>install_missing_imports\<close> can raise).
\<close>

definition install_dependencies ::
  "host \<Rightarrow> int \<Rightarrow> string \<Rightarrow> string \<Rightarrow> event list \<times> string option" where
  "install_dependencies h chat_id target_file working_dir =
     (let requirements_path = path_join working_dir ''requirements.txt'';
          ev1 =
            (if path_exists h requirements_path then
               (case fst (install_requirements_from_file h requirements_path) of
                  (success, msg) \<Rightarrow>
                    [SendMessage chat_id InstallingRequirements,
                     SendMessage chat_id
                       (if \<not> success then RequirementsIssues msg else RequirementsInstalled msg)])
             else []);
          ev2 = ev1 @ [SendMessage chat_id CheckingImports];
          imports = extract_imports h target_file
      in if imports \<noteq> [] then
           (case fst (install_missing_imports h imports) of
              Raises e \<Rightarrow> (ev2, Some e)
            | Returns (success, msg) \<Rightarrow> (ev2 @ [SendMessage chat_id (ImportCheck msg)], None))
         else (ev2, None))"

text \<open>``Prepare command''.\<close>

definition prepare_command :: "host \<Rightarrow> string \<Rightarrow> string \<Rightarrow> string list option" where
  "prepare_command h ext target_file =
     (if ext = ''.py'' then Some [sys_executable h, target_file]
      else if ext = ''.js'' then Some [''node'', target_file]
      else None)"

text \<open>
  ``Create log file'' and the \<open>try\<close> block: spawn, record the run, mark the file
  Running, register the live job, report, start the monitor thread. The handler of the
  block reports the exception; what the block did before it raised stays done.
\<close>

definition log_filename :: "host \<Rightarrow> int \<Rightarrow> string" where
  "log_filename h file_id = ''file_'' @ str_int file_id @ ''_'' @ str_nat (clock h) @ ''.log''"

definition log_path_of :: "host \<Rightarrow> int \<Rightarrow> string" where
  "log_path_of h file_id = path_join (LOGS_DIR h) (log_filename h file_id)"

definition spawn_and_record ::
  "host \<Rightarrow> int \<Rightarrow> int \<Rightarrow> string \<Rightarrow> string list \<Rightarrow> string \<Rightarrow> sys \<Rightarrow> sys \<times> event list" where
  "spawn_and_record h file_id chat_id original_name cmd working_dir st =
     (let log_path = log_path_of h file_id
      in case popen h cmd working_dir log_path of
           Raises e \<Rightarrow> (st, [SendMessage chat_id (FailedToStart e)])
         | Returns pid \<Rightarrow>
             (let st1 = st\<lparr>procs := (procs st)(pid \<mapsto> Alive),
                           spawned := spawned st @ [(pid, cmd)]\<rparr>;
                  (run_id, st2) = record_run_start h file_id pid log_path st1;
                  st3 = update_file_status file_id (Some pid) Running st2;
                  st4 = st3\<lparr>processes :=
                          Mapping.update file_id
                            \<lparr>j_process = pid, j_run_id = run_id, j_log_path = log_path,
                             j_started_at = clock h\<rparr>
                            (processes st3)\<rparr>
              in case send_started h of
                   Some e \<Rightarrow> (st4, [SendMessage chat_id (FailedToStart e)])
                 | None \<Rightarrow>
                     (st4\<lparr>monitors := monitors st4 @
                          [\<lparr>m_process = pid, m_file_id = file_id, m_run_id = run_id,
                            m_chat_id = chat_id, m_original_name = original_name\<rparr>]\<rparr>,
                      [SendMessage chat_id
                         (ProcessStarted original_name pid (log_filename h file_id))])))"

text \<open>
  \<open>start_file_process\<close>: the new state, the messages sent, and the exception that
  leaves the function, if any.
\<close>

definition start_file_process ::
  "config \<Rightarrow> host \<Rightarrow> int \<Rightarrow> int \<Rightarrow> sys \<Rightarrow> sys \<times> event list \<times> string option" where
  "start_file_process cfg h file_id chat_id st =
     (case should_stop_due_to_load cfg (get_system_load h st) of
        (True, reason) \<Rightarrow>
          (st, [SendMessage chat_id (CannotStart reason)], None)
      | (False, _) \<Rightarrow>
          (case get_file_record st file_id of
             None \<Rightarrow> (st, [SendMessage chat_id FileNotFound], None)
           | Some file_record \<Rightarrow>
               (case determine_target h (f_path file_record) of
                  Inl msg \<Rightarrow> (st, [SendMessage chat_id msg], None)
                | Inr (target_file, working_dir) \<Rightarrow>
                    (let ext = lower (splitext_ext target_file);
                         (ev, raised) =
                           (if ext = ''.py''
                            then install_dependencies h chat_id target_file working_dir
                            else ([], None))
                     in case raised of
                          Some e \<Rightarrow> (st, ev, Some e)
                        | None \<Rightarrow>
                            (case prepare_command h ext target_file of
                               None \<Rightarrow> (st, ev @ [SendMessage chat_id (UnsupportedFileType ext)], None)
                             | Some cmd \<Rightarrow>
                                 (case spawn_and_record h file_id chat_id
                                         (f_orig_name file_record) cmd working_dir st of
                                    (st', ev') \<Rightarrow> (st', ev @ ev', None)))))))"

subsection \<open>The monitor thread\<close>

text \<open>
  \<open>monitor_process\<close>, run when \<open>process.wait()\<close> comes back: \<open>waited\<close> is the exit code
  it returned or the exception it raised. The body of the \<open>finally\<close> clause follows in
  both cases.
\<close>

definition monitor_process :: "host \<Rightarrow> monitor \<Rightarrow> int outcome \<Rightarrow> sys \<Rightarrow> sys \<times> event list" where
  "monitor_process h m waited st =
     (let exit_code = (case waited of Returns c \<Rightarrow> c | Raises e \<Rightarrow> - 1);
          st1 = update_file_status (m_file_id m) None Stopped st;
          st2 = record_run_finish h (m_run_id m) exit_code st1;
          st3 = st2\<lparr>processes := Mapping.delete (m_file_id m) (processes st2)\<rparr>
      in (st3,
          if exit_code \<noteq> 0
          then [SendMessage (m_chat_id m) (ProcessExited (m_original_name m) exit_code)]
          else []))"

subsection \<open>stop\<close>

text \<open>\<open>process.poll() is None\<close>.\<close>

definition is_alive :: "sys \<Rightarrow> nat \<Rightarrow> bool" where
  "is_alive st pid \<longleftrightarrow> procs st pid = Some Alive"

text \<open>
  The \<open>try\<close> block of \<open>stop_file_process\<close>: \<open>terminate()\<close>, \<open>wait(timeout=5)\<close>, and
  \<open>kill()\<close> with a second \<open>wait()\<close> when the first one times out. A process killed by a
  signal has the negated signal number as its return code.
\<close>

definition terminate_process :: "host \<Rightarrow> nat \<Rightarrow> sys \<Rightarrow> bool \<times> sys" where
  "terminate_process h pid st =
     (if is_alive st pid then
        (case on_terminate h pid 5 of
           TermRaises e \<Rightarrow> (False, st)
         | ExitsWithin c \<Rightarrow>
             (True, st\<lparr>procs := (procs st)(pid \<mapsto> Exited c),
                       sent_signals := sent_signals st @ [(pid, SIGTERM)]\<rparr>)
         | StillAlive \<Rightarrow>
             (True, st\<lparr>procs := (procs st)(pid \<mapsto> Exited (- 9)),
                       sent_signals := sent_signals st @ [(pid, SIGTERM), (pid, SIGKILL)]\<rparr>))
      else (False, st))"

definition stop_file_process :: "host \<Rightarrow> int \<Rightarrow> sys \<Rightarrow> bool \<times> sys" where
  "stop_file_process h file_id st =
     (case Mapping.lookup (processes st) file_id of
        Some process_info \<Rightarrow>
          (case terminate_process h (j_process process_info) st of
             (stopped, st1) \<Rightarrow>
               (stopped,
                update_file_status file_id None Stopped
                  (st1\<lparr>processes := Mapping.delete file_id (processes st1)\<rparr>)))
      | None \<Rightarrow> (False, update_file_status file_id None Stopped st))"

subsection \<open>logs\<close>

text \<open>The slice \<open>content[-lines:]\<close> for any integer \<open>lines\<close>.\<close>

definition last_lines :: "int \<Rightarrow> 'a list \<Rightarrow> 'a list" where
  "last_lines lines content =
     (if lines > 0 then drop (length content - nat lines) content
      else drop (nat (- lines)) content)"

text \<open>
  \<open>SELECT log_path FROM runs WHERE file_id=? ORDER BY started_at DESC LIMIT 1\<close>: a row
  of the file with the greatest start time; among equal start times the model takes the
  row inserted first.
\<close>

definition latest_run :: "run_record list \<Rightarrow> int \<Rightarrow> run_record option" where
  "latest_run rs file_id =
     (case filter (\<lambda>r. r_file_id r = file_id) rs of
        [] \<Rightarrow> None
      | r # rest \<Rightarrow>
          Some (fold (\<lambda>x best. if r_started_at x > r_started_at best then x else best) rest r))"

text \<open>
  \<open>get_file_logs\<close>. \<open>live_logs\<close> is the block under \<open>proc_lock\<close>: \<open>None\<close> when it falls
  through to the database query. The whole body is inside \<open>try\<close>, and the handler turns
  any exception into the returned text.
\<close>

definition live_logs :: "host \<Rightarrow> int \<Rightarrow> int \<Rightarrow> sys \<Rightarrow> string outcome option" where
  "live_logs h file_id lines st =
     (case Mapping.lookup (processes st) file_id of
        Some process_info \<Rightarrow>
          (case read_file h (j_log_path process_info) of
             Missing \<Rightarrow> None
           | Unreadable e \<Rightarrow> Some (Raises e)
           | Lines content \<Rightarrow>
               Some (Returns (if content \<noteq> [] then concat (last_lines lines content)
                              else ''No logs yet'')))
      | None \<Rightarrow> None)"

definition recorded_logs :: "host \<Rightarrow> int \<Rightarrow> int \<Rightarrow> sys \<Rightarrow> string outcome" where
  "recorded_logs h file_id lines st =
     (case latest_run (runs st) file_id of
        Some row \<Rightarrow>
          if r_log_path row \<noteq> [] then
            (case read_file h (r_log_path row) of
               Missing \<Rightarrow> Returns ''No log file found''
             | Unreadable e \<Rightarrow> Raises e
             | Lines content \<Rightarrow>
                 Returns (if content \<noteq> [] then concat (last_lines lines content)
                          else ''No logs found''))
          else Returns ''No log file found''
      | None \<Rightarrow> Returns ''No log file found'')"

definition get_file_logs :: "host \<Rightarrow> int \<Rightarrow> int \<Rightarrow> sys \<Rightarrow> string outcome" where
  "get_file_logs h file_id lines st =
     (case (case live_logs h file_id lines st of
              Some r \<Rightarrow> r
            | None \<Rightarrow> recorded_logs h file_id lines st) of
        Raises e \<Rightarrow> Returns (''Error reading logs: '' @ e)
      | Returns text \<Rightarrow> Returns text)"

section \<open>Callback handlers\<close>

text \<open>
  The callback data of an inline button, after \<open>data.startswith(..)\<close> and
  \<open>int(data.split(":")[1])\<close>: \<open>MalformedData\<close> is data with a known prefix whose id does
  not parse (the handler's \<open>except\<close> branch), \<open>UnknownData\<close> is data no branch matches.
\<close>

datatype callback_data =
    BackToFiles
  | ManageData int
  | StartData int
  | StopData int
  | RestartData int
  | DeleteData int
  | LogsData int
  | MalformedData
  | UnknownData

record callback =
  cb_data :: callback_data
  cb_chat_id :: int
  cb_user_id :: int
  cb_message_id :: nat

definition send_files_list :: "sys \<Rightarrow> int \<Rightarrow> int \<Rightarrow> event list" where
  "send_files_list st chat_id user_id =
     [SendMessage chat_id
        (YourFiles (map (\<lambda>(file_id, r). (file_id, f_orig_name r, f_file_type r, f_status r))
                      (list_user_files st user_id)))]"

text \<open>
  \<open>show_file_management\<close>. The view is delivered by editing the message that carried the
  button or, failing that, by a new message; the model does not tell the two apart.
\<close>

definition show_file_management :: "sys \<Rightarrow> int \<Rightarrow> int \<Rightarrow> int \<Rightarrow> event list" where
  "show_file_management st chat_id file_id user_id =
     (case get_file_record st file_id of
        None \<Rightarrow> [SendMessage chat_id FileNotFound]
      | Some file_record \<Rightarrow>
          if f_user_id file_record \<noteq> user_id then [SendMessage chat_id AccessDenied]
          else [SendMessage chat_id
                  (FileManagement file_id (f_orig_name file_record) (f_file_type file_record)
                     (Mapping.lookup (processes st) file_id \<noteq> None) (f_pid file_record))])"

text \<open>``Remove files from disk'' in the \<open>delete:\<close> branch.\<close>

definition remove_from_disk :: "host \<Rightarrow> string \<Rightarrow> sys \<Rightarrow> sys" where
  "remove_from_disk h file_path st =
     (if listdir_tree h file_path \<noteq> None
        then st\<lparr>removed_paths := removed_paths st @ [file_path]\<rparr>
      else if path_exists h file_path
        then st\<lparr>removed_paths := removed_paths st @ [file_path]\<rparr>
      else st)"

text \<open>The truncation of the log text in the \<open>logs:\<close> branch.\<close>

definition truncate_logs :: "string \<Rightarrow> string" where
  "truncate_logs logs =
     (if length logs > 4000
      then ''... (truncated) ...'' @ [CHR 0x0A] @ drop (length logs - 4000) logs
      else logs)"

definition callback_handler :: "config \<Rightarrow> host \<Rightarrow> callback \<Rightarrow> sys \<Rightarrow> sys \<times> event list" where
  "callback_handler cfg h call st =
     (let chat_id = cb_chat_id call; user_id = cb_user_id call;
          error = [AnswerCallback ''Error processing request'']
      in case cb_data call of
           BackToFiles \<Rightarrow>
             (st, DeleteMessage chat_id (cb_message_id call) # send_files_list st chat_id user_id)
         | ManageData file_id \<Rightarrow> (st, show_file_management st chat_id file_id user_id)
         | StartData file_id \<Rightarrow>
             (case start_file_process cfg h file_id chat_id st of
                (st1, ev, raised) \<Rightarrow>
                  (st1, AnswerCallback ''Starting...'' # ev @
                        (if raised \<noteq> None then error
                         else show_file_management st1 chat_id file_id user_id)))
         | StopData file_id \<Rightarrow>
             (case stop_file_process h file_id st of
                (stopped, st1) \<Rightarrow>
                  (st1, [AnswerCallback ''Stopping...'', SendMessage chat_id ProcessStopped] @
                        show_file_management st1 chat_id file_id user_id))
         | RestartData file_id \<Rightarrow>
             (case stop_file_process h file_id st of
                (stopped, st1) \<Rightarrow>
                  (case start_file_process cfg h file_id chat_id st1 of
                     (st2, ev, raised) \<Rightarrow>
                       (st2, AnswerCallback ''Restarting...'' # ev @
                             (if raised \<noteq> None then error
                              else show_file_management st2 chat_id file_id user_id))))
         | DeleteData file_id \<Rightarrow>
             (let st1 =
                (case get_file_record st file_id of
                   Some file_record \<Rightarrow>
                     remove_file_record file_id
                       (remove_from_disk h (f_path file_record)
                          (snd (stop_file_process h file_id st)))
                 | None \<Rightarrow> st)
              in (st1, [AnswerCallback ''Deleting...'', SendMessage chat_id FileDeleted] @
                       send_files_list st1 chat_id user_id))
         | LogsData file_id \<Rightarrow>
             (case get_file_logs h file_id 50 st of
                Returns logs \<Rightarrow>
                  (st, [AnswerCallback ''Getting logs...'',
                        SendMessage chat_id
                          (LogsFor (case get_file_record st file_id of
                                      Some file_record \<Rightarrow> f_orig_name file_record
                                    | None \<Rightarrow> ''Unknown'')
                                   (truncate_logs logs))])
              | Raises e \<Rightarrow> (st, AnswerCallback ''Getting logs...'' # error))
         | MalformedData \<Rightarrow> (st, error)
         | UnknownData \<Rightarrow> (st, []))"

section \<open>Observations on a state\<close>

text \<open>
  The open runs of a file (rows without an end time) and the pids of its live processes
  (the processes recorded for the file in \<open>runs\<close> that the operating system still runs).
\<close>

definition open_runs :: "sys \<Rightarrow> int \<Rightarrow> run_record list" where
  "open_runs st file_id =
     filter (\<lambda>r. r_file_id r = file_id \<and> r_finished_at r = None) (runs st)"

definition live_pids :: "sys \<Rightarrow> int \<Rightarrow> nat list" where
  "live_pids st file_id =
     remdups (map r_pid (filter (\<lambda>r. r_file_id r = file_id \<and> is_alive st (r_pid r)) (runs st)))"

section \<open>A small deployment\<close>

text \<open>
  Two uploaded single-file scripts of two tenants, an idle host, and the thresholds
  used in the scenarios below.
\<close>

definition ex_cfg :: config where
  "ex_cfg = \<lparr>CPU_THRESHOLD = 90, MEMORY_THRESHOLD = 90, MAX_RUNNING_PROCESSES = 10\<rparr>"

text \<open>The same thresholds with room for a single job.\<close>

definition ex_cfg_one :: config where
  "ex_cfg_one = ex_cfg\<lparr>MAX_RUNNING_PROCESSES := 1\<rparr>"

definition ex_bot :: file_record where
  "ex_bot = \<lparr>f_user_id = 42, f_orig_name = ''bot.py'', f_path = ''/data/uploads/42/1_bot.py'',
             f_file_type = ''python'', f_pid = None, f_status = Stopped\<rparr>"

definition ex_app :: file_record where
  "ex_app = \<lparr>f_user_id = 43, f_orig_name = ''app.js'', f_path = ''/data/uploads/43/2_app.js'',
             f_file_type = ''javascript'', f_pid = None, f_status = Stopped\<rparr>"

definition ex_host :: host where
  "ex_host =
     \<lparr>psutil_sample = Some (10, 20), clock = 1000, sys_executable = ''python3'',
      listdir_tree = Map.empty,
      isfile = (\<lambda>p. p = ''/data/uploads/42/1_bot.py'' \<or> p = ''/data/uploads/43/2_app.js''),
      read_file = (\<lambda>p. if p = ''/data/uploads/42/1_bot.py'' \<or> p = ''/data/uploads/43/2_app.js''
                        then Lines [] else Missing),
      ast_parse = (\<lambda>p. Some []),
      import_module = (\<lambda>m. Imported),
      subprocess_run = (\<lambda>cmd t. ExitCode 0),
      LOGS_DIR = ''/data/logs'',
      popen = (\<lambda>cmd cwd log. Returns 100),
      send_started = None,
      on_terminate = (\<lambda>pid timeout. ExitsWithin 0)\<rparr>"

definition ex_idle :: sys where
  "ex_idle =
     \<lparr>files = Mapping.update 2 ex_app (Mapping.update 1 ex_bot Mapping.empty),
      runs = [], processes = Mapping.empty, procs = Map.empty, spawned = [],
      sent_signals = [], monitors = [], removed_paths = []\<rparr>"

text \<open>The state after the first script has been started.\<close>

definition ex_running :: sys where
  "ex_running = fst (start_file_process ex_cfg ex_host 1 7 ex_idle)"

text \<open>The host a moment later: the next process gets pid 101.\<close>

definition ex_host_later :: host where
  "ex_host_later = ex_host\<lparr>clock := 1001, popen := (\<lambda>cmd cwd log. Returns 101)\<rparr>"

text \<open>The same host when sampling the load raises.\<close>

definition ex_host_blind :: host where
  "ex_host_blind = ex_host_later\<lparr>psutil_sample := None\<rparr>"




text \<open>
  A host on which a \<open>requirements.txt\<close> lies beside the first script. Its four lines are
  an indented comment, a package, a comment and an empty line; \<open>pip\<close> installs
  \<open>requests\<close> and fails on anything else.
\<close>

definition ex_manifest :: "string list" where
  "ex_manifest =
     [''  # pinned versions'' @ [CHR 0x0A], ''requests'' @ [CHR 0x0A],
      ''# tools'' @ [CHR 0x0A], [CHR 0x0A]]"

definition ex_host_manifest :: host where
  "ex_host_manifest =
     ex_host\<lparr>read_file := (\<lambda>p. if p = ''/data/uploads/42/requirements.txt''
                                 then Lines ex_manifest else read_file ex_host p),
              subprocess_run := (\<lambda>cmd t. if last cmd = ''requests'' then ExitCode 0
                                         else ExitCode 1)\<rparr>"

text \<open>A host on which the chat front end cannot be reached when the start is reported.\<close>

definition ex_host_unreachable :: host where
  "ex_host_unreachable = ex_host\<lparr>send_started := Some ''Read timed out''\<rparr>"

text \<open>A host on which the running script ignores \<open>terminate()\<close>.\<close>

definition ex_host_stubborn :: host where
  "ex_host_stubborn = ex_host\<lparr>on_terminate := (\<lambda>pid timeout. StillAlive)\<rparr>"

text \<open>The state after the first script, already running, has been started once more.\<close>

definition ex_started_twice :: sys where
  "ex_started_twice = fst (start_file_process ex_cfg ex_host_later 1 7 ex_running)"

section \<open>The resolver as the specification words it\<close>

text \<open>
  The conventional entry-point names and the two source extensions; the priority list is
  their product, extension by extension.
\<close>

definition entry_point_names :: "string list" where
  "entry_point_names = [''main'', ''bot'', ''app'', ''server'', ''index'', ''script'']"

definition source_extensions :: "string list" where
  "source_extensions = [''.py'', ''.js'']"

definition spec_priority_list :: "string list" where
  "spec_priority_list =
     concat (map (\<lambda>ext. map (\<lambda>name. name @ ext) entry_point_names) source_extensions)"

definition supported_source :: "string \<Rightarrow> bool" where
  "supported_source file \<longleftrightarrow> list_ex (\<lambda>ext. endswith file ext) source_extensions"

text \<open>The files under a directory in walk order, each with the directory that holds it.\<close>

definition walk_files :: "string \<Rightarrow> dir_tree \<Rightarrow> (string \<times> string) list" where
  "walk_files directory t =
     concat (map (\<lambda>(root, fs). map (Pair root) fs) (walk directory t))"

text \<open>
  Resolution in three stages, first match wins: (1) a priority name that is a regular file
  at the root, in the order of the priority list; then a priority name in the first
  directory of the walk that lists one; (2) the first file of the walk with a supported
  extension; otherwise nothing.
\<close>

definition spec_resolve :: "(string \<Rightarrow> bool) \<Rightarrow> string \<Rightarrow> dir_tree \<Rightarrow> string option" where
  "spec_resolve is_file directory t =
     (case List.find (\<lambda>name. is_file (path_join directory name)) spec_priority_list of
        Some name \<Rightarrow> Some (path_join directory name)
      | None \<Rightarrow>
          (case List.find (\<lambda>(dir, fs). list_ex (\<lambda>name. name \<in> set fs) spec_priority_list)
                  (walk directory t) of
             Some (dir, fs) \<Rightarrow>
               map_option (path_join dir)
                 (List.find (\<lambda>name. name \<in> set fs) spec_priority_list)
           | None \<Rightarrow>
               map_option (\<lambda>(dir, file). path_join dir file)
                 (List.find (\<lambda>(dir, file). supported_source file) (walk_files directory t))))"

section \<open>The view that closes a callback\<close>

text \<open>
  What \<open>callback_handler\<close> sends last, after the operation itself: the management view
  of the file for \<open>manage\<close>, \<open>start\<close>, \<open>stop\<close> and \<open>restart\<close>, the caller's list of files
  for \<open>delete\<close> and \<open>back_to_files\<close>, and nothing for \<open>logs\<close>. It is computed in the state
  the operation has left.
\<close>

definition trailing_view :: "sys \<Rightarrow> callback \<Rightarrow> event list" where
  "trailing_view st call =
     (case cb_data call of
        BackToFiles \<Rightarrow> send_files_list st (cb_chat_id call) (cb_user_id call)
      | ManageData file_id \<Rightarrow>
          show_file_management st (cb_chat_id call) file_id (cb_user_id call)
      | StartData file_id \<Rightarrow>
          show_file_management st (cb_chat_id call) file_id (cb_user_id call)
      | StopData file_id \<Rightarrow>
          show_file_management st (cb_chat_id call) file_id (cb_user_id call)
      | RestartData file_id \<Rightarrow>
          show_file_management st (cb_chat_id call) file_id (cb_user_id call)
      | DeleteData file_id \<Rightarrow> send_files_list st (cb_chat_id call) (cb_user_id call)
      | LogsData file_id \<Rightarrow> []
      | MalformedData \<Rightarrow> []
      | UnknownData \<Rightarrow> [])"

section \<open>Properties of the admission controller\<close>

text \<open>A rejected start changes nothing and only reports the reason.\<close>

lemma start_rejected:
  "fst (should_stop_due_to_load cfg (get_system_load h st)) \<Longrightarrow>
   start_file_process cfg h file_id chat_id st =
     (st, [SendMessage chat_id (CannotStart (snd (should_stop_due_to_load cfg (get_system_load h st))))], None)"
  by (cases "should_stop_due_to_load cfg (get_system_load h st)")
     (simp add: start_file_process_def)

text \<open>
  C2 (amended). The admission decision is a function of the sampled triple alone, made by
  three ordered checks: the live-job count against \<open>MAX_RUNNING_PROCESSES\<close>, then the CPU
  percentage against \<open>CPU_THRESHOLD\<close>, then the memory percentage against
  \<open>MEMORY_THRESHOLD\<close>; the first check that is violated gives the reason, and the
  execution is admitted when none is. When sampling the host succeeds, the triple is the
  sample with the size of \<open>processes\<close>, and with as many live jobs as the configured
  maximum \<open>start_file_process\<close> reports the rejection and returns with the state
  unchanged (nothing is spawned), for every file id. When sampling raises, the triple is
  \<open>(0.0, 0.0, 0)\<close>.
\<close>

theorem admission_decision:
  "(n \<ge> MAX_RUNNING_PROCESSES cfg \<longrightarrow>
      should_stop_due_to_load cfg (load, memory, n) =
        (True, Some (TooManyProcesses n (MAX_RUNNING_PROCESSES cfg))))
   \<and> (n < MAX_RUNNING_PROCESSES cfg \<and> load \<ge> CPU_THRESHOLD cfg \<longrightarrow>
      should_stop_due_to_load cfg (load, memory, n) = (True, Some (HighCPU load)))
   \<and> (n < MAX_RUNNING_PROCESSES cfg \<and> load < CPU_THRESHOLD cfg \<and> memory \<ge> MEMORY_THRESHOLD cfg \<longrightarrow>
      should_stop_due_to_load cfg (load, memory, n) = (True, Some (HighMemory memory)))
   \<and> (n < MAX_RUNNING_PROCESSES cfg \<and> load < CPU_THRESHOLD cfg \<and> memory < MEMORY_THRESHOLD cfg \<longrightarrow>
      should_stop_due_to_load cfg (load, memory, n) = (False, None))
   \<and> (psutil_sample h = Some (cpu, mem) \<and>
        int (Mapping.size (processes st)) = MAX_RUNNING_PROCESSES cfg \<longrightarrow>
      start_file_process cfg h file_id chat_id st =
        (st, [SendMessage chat_id (CannotStart (Some (TooManyProcesses
                (MAX_RUNNING_PROCESSES cfg) (MAX_RUNNING_PROCESSES cfg))))], None))
   \<and> (psutil_sample h = Some (cpu, mem) \<longrightarrow>
        get_system_load h st = (cpu, mem, int (Mapping.size (processes st))))
   \<and> (psutil_sample h = None \<longrightarrow> get_system_load h st = (0, 0, 0))"
proof -
  have decision: "should_stop_due_to_load cfg (load, memory, n) =
      (if n \<ge> MAX_RUNNING_PROCESSES cfg
         then (True, Some (TooManyProcesses n (MAX_RUNNING_PROCESSES cfg)))
       else if load \<ge> CPU_THRESHOLD cfg then (True, Some (HighCPU load))
       else if memory \<ge> MEMORY_THRESHOLD cfg then (True, Some (HighMemory memory))
       else (False, None))"
    by (simp add: should_stop_due_to_load_def)
  have full: "start_file_process cfg h file_id chat_id st =
        (st, [SendMessage chat_id (CannotStart (Some (TooManyProcesses
                (MAX_RUNNING_PROCESSES cfg) (MAX_RUNNING_PROCESSES cfg))))], None)"
    if sample: "psutil_sample h = Some (cpu, mem)"
      and count: "int (Mapping.size (processes st)) = MAX_RUNNING_PROCESSES cfg"
  proof -
    have load: "get_system_load h st = (cpu, mem, MAX_RUNNING_PROCESSES cfg)"
      using sample count by (simp add: get_system_load_def)
    have "should_stop_due_to_load cfg (get_system_load h st) =
        (True, Some (TooManyProcesses (MAX_RUNNING_PROCESSES cfg) (MAX_RUNNING_PROCESSES cfg)))"
      unfolding load by (simp add: should_stop_due_to_load_def)
    then show ?thesis
      using start_rejected [of cfg h st file_id chat_id] by simp
  qed
  show ?thesis
    using decision full by (simp add: get_system_load_def)
qed

text \<open>The scenario: one job is live, which is all that \<open>ex_cfg_one\<close> allows.\<close>

lemma ex_running_jobs: "int (Mapping.size (processes ex_running)) = 1"
  by code_simp

theorem admission_decision_witness:
  "should_stop_due_to_load ex_cfg (10, 20, 10) = (True, Some (TooManyProcesses 10 10))
   \<and> should_stop_due_to_load ex_cfg (95, 99, 3) = (True, Some (HighCPU 95))
   \<and> should_stop_due_to_load ex_cfg (10, 99, 3) = (True, Some (HighMemory 99))
   \<and> should_stop_due_to_load ex_cfg (10, 20, 3) = (False, None)
   \<and> start_file_process ex_cfg_one ex_host_later 2 7 ex_running =
        (ex_running, [SendMessage 7 (CannotStart (Some (TooManyProcesses 1 1)))], None)
   \<and> get_system_load ex_host_later ex_running = (10, 20, 1)
   \<and> get_system_load ex_host_blind ex_running = (0, 0, 0)"
proof -
  have cfg: "MAX_RUNNING_PROCESSES ex_cfg = 10" "CPU_THRESHOLD ex_cfg = 90"
    "MEMORY_THRESHOLD ex_cfg = 90" "MAX_RUNNING_PROCESSES ex_cfg_one = 1"
    by (simp_all add: ex_cfg_def ex_cfg_one_def)
  have sample: "psutil_sample ex_host_later = Some (10, 20)"
    "psutil_sample ex_host_blind = None"
    by (simp_all add: ex_host_blind_def ex_host_later_def ex_host_def)
  show ?thesis
    using admission_decision [where cfg = ex_cfg and n = 10 and load = 10 and memory = 20
          and h = ex_host_later and cpu = 10 and mem = 20 and st = ex_running
          and file_id = 2 and chat_id = 7]
      admission_decision [where cfg = ex_cfg and n = 3 and load = 95 and memory = 99
          and h = ex_host_later and cpu = 10 and mem = 20 and st = ex_running
          and file_id = 2 and chat_id = 7]
      admission_decision [where cfg = ex_cfg and n = 3 and load = 10 and memory = 99
          and h = ex_host_later and cpu = 10 and mem = 20 and st = ex_running
          and file_id = 2 and chat_id = 7]
      admission_decision [where cfg = ex_cfg and n = 3 and load = 10 and memory = 20
          and h = ex_host_later and cpu = 10 and mem = 20 and st = ex_running
          and file_id = 2 and chat_id = 7]
      admission_decision [where cfg = ex_cfg_one and n = 3 and load = 10 and memory = 20
          and h = ex_host_later and cpu = 10 and mem = 20 and st = ex_running
          and file_id = 2 and chat_id = 7]
      admission_decision [where cfg = ex_cfg_one and n = 3 and load = 10 and memory = 20
          and h = ex_host_blind and cpu = 10 and mem = 20 and st = ex_running
          and file_id = 2 and chat_id = 7]
      ex_running_jobs sample
    by (simp add: cfg)
qed

text \<open>
  C2 as stated fails when sampling the host raises: \<open>get_system_load\<close> then reports
  \<open>(0.0, 0.0, 0)\<close>, so with as many live jobs as the maximum allows the start of a
  second script is admitted and its process is spawned.
\<close>

theorem admission_blind_counterexample:
  "int (Mapping.size (processes ex_running)) = MAX_RUNNING_PROCESSES ex_cfg_one
   \<and> spawned ex_running = [(100, [''python3'', ''/data/uploads/42/1_bot.py''])]
   \<and> spawned (fst (start_file_process ex_cfg_one ex_host_blind 2 7 ex_running)) =
        [(100, [''python3'', ''/data/uploads/42/1_bot.py'']),
         (101, [''node'', ''/data/uploads/43/2_app.js''])]"
  by code_simp

section \<open>Properties of the archive extractor\<close>

text \<open>A suffix fixes the last character, so the four suffixes exclude one another.\<close>

lemma endswith_last: "endswith s p \<Longrightarrow> p \<noteq> [] \<Longrightarrow> last s = last p"
proof -
  assume e: "endswith s p" and ne: "p \<noteq> []"
  from e have d: "drop (length s - length p) s = p" and l: "length p \<le> length s"
    by (simp_all add: endswith_def)
  from ne l have "length s - length p < length s" by (cases p) auto
  then have "last (drop (length s - length p) s) = last s" by simp
  with d show ?thesis by simp
qed

lemma suffix_format_Zip: "suffix_format p = Some Zip \<longleftrightarrow> endswith (lower p) ''.zip''"
  by (simp add: suffix_format_def)

lemma suffix_format_TarGz:
  "suffix_format p = Some TarGz \<longleftrightarrow>
     endswith (lower p) ''.tar.gz'' \<or> endswith (lower p) ''.tgz''"
  using endswith_last [of "lower p" "''.zip''"] endswith_last [of "lower p" "''.tar.gz''"]
    endswith_last [of "lower p" "''.tgz''"]
  by (auto simp add: suffix_format_def)

lemma suffix_format_Tar: "suffix_format p = Some Tar \<longleftrightarrow> endswith (lower p) ''.tar''"
  using endswith_last [of "lower p" "''.zip''"] endswith_last [of "lower p" "''.tar.gz''"]
    endswith_last [of "lower p" "''.tgz''"] endswith_last [of "lower p" "''.tar''"]
  by (auto simp add: suffix_format_def)

lemma extract_archive_unsupported:
  "suffix_format file_path = None \<Longrightarrow>
   extract_archive extractall file_path extract_dir =
     (Returns (False, Some ''Unsupported archive format''), [])"
  by (simp add: suffix_format_def extract_archive_def split: if_splits)

lemma extract_archive_supported:
  "suffix_format file_path = Some fmt \<Longrightarrow>
   extract_archive extractall file_path extract_dir =
     (case extractall fmt file_path extract_dir of
        Returns u \<Rightarrow> Returns (True, None)
      | Raises e \<Rightarrow> Returns (False, Some e), [fmt])"
  by (auto simp add: suffix_format_def extract_archive_def split: if_splits outcome.splits)

text \<open>
  C9. \<open>extract_archive\<close> always returns a pair and never raises. A file name whose
  lower-cased form ends in none of \<open>.zip\<close>, \<open>.tar.gz\<close>, \<open>.tgz\<close>, \<open>.tar\<close> is answered
  with \<open>(False, "Unsupported archive format")\<close> without any call of the archive
  libraries. Otherwise exactly one library call is made, for the format the suffix
  selects (zip, gzip-compressed tar, plain tar: there is no fourth), and its failure comes
  back as \<open>(False, reason)\<close>, its success as \<open>(True, None)\<close>.
\<close>

theorem extract_archive_never_raises:
  "(\<exists>r. fst (extract_archive extractall file_path extract_dir) = Returns r)
   \<and> (suffix_format file_path = None \<longrightarrow>
        extract_archive extractall file_path extract_dir =
          (Returns (False, Some ''Unsupported archive format''), []))
   \<and> (suffix_format file_path = Some fmt \<longrightarrow>
        extract_archive extractall file_path extract_dir =
          (case extractall fmt file_path extract_dir of
             Returns u \<Rightarrow> Returns (True, None)
           | Raises e \<Rightarrow> Returns (False, Some e), [fmt]))
   \<and> (suffix_format file_path = Some Zip \<longleftrightarrow> endswith (lower file_path) ''.zip'')
   \<and> (suffix_format file_path = Some TarGz \<longleftrightarrow>
        endswith (lower file_path) ''.tar.gz'' \<or> endswith (lower file_path) ''.tgz'')
   \<and> (suffix_format file_path = Some Tar \<longleftrightarrow> endswith (lower file_path) ''.tar'')
   \<and> (fmt = Zip \<or> fmt = TarGz \<or> fmt = Tar)"
proof -
  have total: "\<exists>r. fst (extract_archive extractall file_path extract_dir) = Returns r"
  proof (cases "suffix_format file_path")
    case None
    then have "fst (extract_archive extractall file_path extract_dir) =
        Returns (False, Some ''Unsupported archive format'')"
      by (simp add: extract_archive_unsupported)
    then show ?thesis by blast
  next
    case (Some f)
    then show ?thesis
      by (cases "extractall f file_path extract_dir") (auto simp add: extract_archive_supported)
  qed
  have three: "fmt = Zip \<or> fmt = TarGz \<or> fmt = Tar" by (cases fmt) simp_all
  show ?thesis
    using total three extract_archive_unsupported [of file_path extractall extract_dir]
      extract_archive_supported [of file_path fmt extractall extract_dir]
      suffix_format_Zip [of file_path] suffix_format_TarGz [of file_path]
      suffix_format_Tar [of file_path]
    by blast
qed

theorem extract_archive_never_raises_witness:
  "extract_archive (\<lambda>fmt p d. Raises ''File is not a zip file'') ''Project.ZIP'' ''/tmp/x'' =
     (Returns (False, Some ''File is not a zip file''), [Zip])
   \<and> extract_archive (\<lambda>fmt p d. Returns ()) ''src.tar.gz'' ''/tmp/x'' = (Returns (True, None), [TarGz])
   \<and> extract_archive (\<lambda>fmt p d. Raises ''never called'') ''notes.rar'' ''/tmp/x'' =
     (Returns (False, Some ''Unsupported archive format''), [])"
proof -
  have f: "suffix_format ''Project.ZIP'' = Some Zip" "suffix_format ''src.tar.gz'' = Some TarGz"
    "suffix_format ''notes.rar'' = None"
    by code_simp+
  show ?thesis
    using extract_archive_never_raises [where file_path = "''Project.ZIP''" and fmt = Zip
        and extractall = "\<lambda>fmt p d. Raises ''File is not a zip file''" and extract_dir = "''/tmp/x''"]
      extract_archive_never_raises [where file_path = "''src.tar.gz''" and fmt = TarGz
        and extractall = "\<lambda>fmt p d. Returns ()" and extract_dir = "''/tmp/x''"]
      extract_archive_never_raises [where file_path = "''notes.rar''" and fmt = Zip
        and extractall = "\<lambda>fmt p d. Raises ''never called''" and extract_dir = "''/tmp/x''"]
    by (simp add: f)
qed

section \<open>Properties of the entry-point resolver\<close>

text \<open>A loop that returns at the first hit is a search for the first element.\<close>

lemma first_some_find:
  "first_some f xs = (case List.find (\<lambda>x. f x \<noteq> None) xs of None \<Rightarrow> None | Some x \<Rightarrow> f x)"
  by (induction xs) (auto split: option.splits)

lemma first_some_if:
  "first_some (\<lambda>x. if P x then Some (g x) else None) xs = map_option g (List.find P xs)"
  by (induction xs) auto

lemma find_neq_None: "List.find P xs \<noteq> None \<longleftrightarrow> list_ex P xs"
  by (induction xs) auto

lemma find_Some_ex: "(\<exists>x. List.find P xs = Some x) \<longleftrightarrow> list_ex P xs"
  by (induction xs) auto

lemma find_SomeD: "List.find P xs = Some x \<Longrightarrow> P x \<and> x \<in> set xs"
  by (induction xs) (auto split: if_splits)

lemma find_append_first:
  "List.find P (xs @ ys) = (case List.find P xs of None \<Rightarrow> List.find P ys | Some x \<Rightarrow> Some x)"
  by (induction xs) auto

lemma find_map_Pair:
  "List.find (\<lambda>(d, f). P f) (map (Pair dir) fs) = map_option (Pair dir) (List.find P fs)"
  by (induction fs) auto

lemma first_some_nested:
  "first_some (\<lambda>(dir, fs). first_some (\<lambda>f. if P f then Some (g dir f) else None) fs) ws =
   map_option (\<lambda>(dir, f). g dir f)
     (List.find (\<lambda>(dir, f). P f) (concat (map (\<lambda>(dir, fs). map (Pair dir) fs) ws)))"
proof (induction ws)
  case Nil
  show ?case by simp
next
  case (Cons w ws)
  obtain dir fs where w: "w = (dir, fs)" by (cases w)
  show ?case
    using Cons.IH
    by (cases "List.find P fs")
       (simp_all add: w first_some_if find_append_first find_map_Pair)
qed

text \<open>The priority list and the supported extensions.\<close>

lemma priority_files_product: "priority_files = spec_priority_list"
  by (simp add: priority_files_def spec_priority_list_def entry_point_names_def
      source_extensions_def)

lemma priority_supported: "name \<in> set priority_files \<Longrightarrow> supported_source name"
  by (auto simp add: priority_files_def supported_source_def source_extensions_def endswith_def)

lemma supported_source_iff:
  "supported_source fname \<longleftrightarrow> endswith fname ''.py'' \<or> endswith fname ''.js''"
  by (simp add: supported_source_def source_extensions_def)

text \<open>Each of the three loops as a search.\<close>

lemma root_priority_find:
  "root_priority is_file directory =
     map_option (path_join directory)
       (List.find (\<lambda>name. is_file (path_join directory name)) priority_files)"
  by (simp add: root_priority_def Let_def first_some_if)

lemma first_some_walk:
  "first_some (\<lambda>(dir, fs). first_some (\<lambda>name. if name \<in> set fs
        then Some (g dir name) else None) ps) ws =
   (case List.find (\<lambda>(dir, fs). list_ex (\<lambda>name. name \<in> set fs) ps) ws of
      None \<Rightarrow> None
    | Some (dir, fs) \<Rightarrow> map_option (g dir) (List.find (\<lambda>name. name \<in> set fs) ps))"
proof (induction ws)
  case Nil
  show ?case by simp
next
  case (Cons w ws)
  obtain dir fs where w: "w = (dir, fs)" by (cases w)
  show ?case
  proof (cases "List.find (\<lambda>name. name \<in> set fs) ps")
    case None
    then have "\<not> list_ex (\<lambda>name. name \<in> set fs) ps"
      using find_Some_ex [of "\<lambda>name. name \<in> set fs" ps] by simp
    with None Cons.IH show ?thesis by (simp add: w first_some_if)
  next
    case (Some name)
    then have "list_ex (\<lambda>name. name \<in> set fs) ps"
      using find_Some_ex [of "\<lambda>name. name \<in> set fs" ps] by auto
    with Some show ?thesis by (simp add: w first_some_if)
  qed
qed

lemma walk_priority_find:
  "walk_priority directory t =
     (case List.find (\<lambda>(dir, fs). list_ex (\<lambda>name. name \<in> set fs) priority_files)
             (walk directory t) of
        None \<Rightarrow> None
      | Some (dir, fs) \<Rightarrow>
          map_option (path_join dir) (List.find (\<lambda>name. name \<in> set fs) priority_files))"
  unfolding walk_priority_def by (rule first_some_walk)

lemma walk_fallback_find:
  "walk_fallback directory t =
     map_option (\<lambda>(dir, fname). path_join dir fname)
       (List.find (\<lambda>(dir, fname). supported_source fname) (walk_files directory t))"
  unfolding walk_fallback_def walk_files_def supported_source_iff
  by (rule first_some_nested)

lemma find_main_file_spec: "find_main_file is_file directory t = spec_resolve is_file directory t"
proof (cases "List.find (\<lambda>name. is_file (path_join directory name)) priority_files")
  case (Some name)
  then show ?thesis
    by (simp add: find_main_file_def spec_resolve_def root_priority_find
        priority_files_product [symmetric])
next
  case None
  note at_root = None
  show ?thesis
  proof (cases "List.find (\<lambda>(dir, fs). list_ex (\<lambda>name. name \<in> set fs) priority_files)
                  (walk directory t)")
    case None
    with at_root show ?thesis
      by (simp add: find_main_file_def spec_resolve_def root_priority_find walk_priority_find
          walk_fallback_find priority_files_product [symmetric])
  next
    case (Some w)
    obtain dir fs where w: "w = (dir, fs)" by (cases w)
    from find_SomeD [OF Some] have "list_ex (\<lambda>name. name \<in> set fs) priority_files"
      by (simp add: w)
    then obtain name where name: "List.find (\<lambda>name. name \<in> set fs) priority_files = Some name"
      using find_neq_None [of "\<lambda>name. name \<in> set fs" priority_files] by auto
    from at_root Some name show ?thesis
      by (simp add: find_main_file_def spec_resolve_def root_priority_find walk_priority_find
          priority_files_product [symmetric] w)
  qed
qed

text \<open>The first hit of a search is the element before which nothing hits.\<close>

lemma find_first_hit:
  "x \<in> set xs \<Longrightarrow> P x \<Longrightarrow> \<not> list_ex P (takeWhile (\<lambda>y. y \<noteq> x) xs) \<Longrightarrow>
   List.find P xs = Some x"
  by (induction xs) (auto split: if_splits)

lemma priority_at_root:
  assumes "name \<in> set priority_files" and "is_file (path_join directory name)"
    and "\<not> list_ex (\<lambda>earlier. is_file (path_join directory earlier))
             (takeWhile (\<lambda>n. n \<noteq> name) priority_files)"
  shows "find_main_file is_file directory t = Some (path_join directory name)"
proof -
  have "List.find (\<lambda>n. is_file (path_join directory n)) priority_files = Some name"
    using assms by (rule find_first_hit)
  then show ?thesis
    by (simp add: find_main_file_def root_priority_find)
qed

lemma main_py_at_root:
  "is_file (path_join directory ''main.py'') \<Longrightarrow>
   find_main_file is_file directory t = Some (path_join directory ''main.py'')"
  by (simp add: find_main_file_def root_priority_find priority_files_def)

lemma single_file_fallback:
  assumes sup: "supported_source fname" and np: "fname \<notin> set priority_files"
    and no_regular: "\<not> list_ex (\<lambda>name. is_file (path_join directory name)) priority_files"
  shows "find_main_file is_file directory (Dir [fname] []) = Some (path_join directory fname)"
proof -
  have "List.find (\<lambda>name. is_file (path_join directory name)) priority_files = None"
    using no_regular
      find_neq_None [of "\<lambda>name. is_file (path_join directory name)" priority_files]
    by simp
  then have r: "root_priority is_file directory = None"
    by (simp add: root_priority_find)
  have "\<not> list_ex (\<lambda>name. name = fname) priority_files"
    using np by (auto simp add: list_ex_iff)
  then have w: "walk_priority directory (Dir [fname] []) = None"
    by (simp add: walk_priority_find)
  have f: "walk_fallback directory (Dir [fname] []) = Some (path_join directory fname)"
    using sup by (simp add: walk_fallback_find walk_files_def)
  show ?thesis
    by (simp add: find_main_file_def r w f)
qed

lemma in_walk_files:
  "(dir, fname) \<in> set (walk_files directory t) \<longleftrightarrow>
     (\<exists>fs. (dir, fs) \<in> set (walk directory t) \<and> fname \<in> set fs)"
  by (auto simp add: walk_files_def)

lemma not_found_iff:
  "find_main_file is_file directory t = None \<longleftrightarrow>
     \<not> list_ex (\<lambda>name. is_file (path_join directory name)) priority_files
     \<and> \<not> list_ex (\<lambda>(dir, fname). supported_source fname) (walk_files directory t)"
proof
  assume none: "find_main_file is_file directory t = None"
  then have r: "root_priority is_file directory = None"
    by (simp add: find_main_file_def split: option.splits)
  from none have "walk_fallback directory t = None"
    by (simp add: find_main_file_def split: option.splits)
  then have f: "\<not> list_ex (\<lambda>(dir, fname). supported_source fname) (walk_files directory t)"
    using find_neq_None [of "\<lambda>(dir, fname). supported_source fname" "walk_files directory t"]
    by (simp add: walk_fallback_find)
  from r have "\<not> list_ex (\<lambda>name. is_file (path_join directory name)) priority_files"
    using find_neq_None [of "\<lambda>name. is_file (path_join directory name)" priority_files]
    by (simp add: root_priority_find)
  with f show "\<not> list_ex (\<lambda>name. is_file (path_join directory name)) priority_files
     \<and> \<not> list_ex (\<lambda>(dir, fname). supported_source fname) (walk_files directory t)"
    by simp
next
  assume both: "\<not> list_ex (\<lambda>name. is_file (path_join directory name)) priority_files
     \<and> \<not> list_ex (\<lambda>(dir, fname). supported_source fname) (walk_files directory t)"
  then have no: "\<not> list_ex (\<lambda>(dir, fname). supported_source fname) (walk_files directory t)"
    by simp
  then have "\<forall>x \<in> set (walk_files directory t). \<not> supported_source (snd x)"
    by (simp add: list_ex_iff case_prod_unfold)
  then have files: "\<not> supported_source fname"
    if "(dir, fs) \<in> set (walk directory t)" "fname \<in> set fs" for dir fs fname
    using that in_walk_files [of dir fname directory t] by fastforce
  have a: "List.find (\<lambda>name. is_file (path_join directory name)) priority_files = None"
    using both find_neq_None [of "\<lambda>name. is_file (path_join directory name)" priority_files]
    by simp
  have "\<forall>w \<in> set (walk directory t). \<forall>name \<in> set priority_files. name \<notin> set (snd w)"
    using files priority_supported by (metis prod.collapse)
  then have "\<forall>w \<in> set (walk directory t).
      \<not> (case w of (dir, fs) \<Rightarrow> list_ex (\<lambda>name. name \<in> set fs) priority_files)"
    by (simp add: list_ex_iff case_prod_unfold)
  then have b: "List.find (\<lambda>(dir, fs). list_ex (\<lambda>name. name \<in> set fs) priority_files)
             (walk directory t) = None"
    by (auto simp add: find_None_iff)
  have c: "List.find (\<lambda>(dir, fname). supported_source fname) (walk_files directory t) = None"
  proof (rule ccontr)
    assume "List.find (\<lambda>(dir, fname). supported_source fname) (walk_files directory t) \<noteq> None"
    then have "list_ex (\<lambda>(dir, fname). supported_source fname) (walk_files directory t)"
      by (rule find_neq_None [THEN iffD1])
    with no show False by simp
  qed
  show "find_main_file is_file directory t = None"
    by (simp add: find_main_file_def root_priority_find walk_priority_find walk_fallback_find a b c)
qed

text \<open>
  C5 (amended). \<open>find_main_file\<close> resolves in three stages, the first match winning. The
  priority list is the six conventional names crossed with the two source extensions, all
  \<open>.py\<close> names before all \<open>.js\<close> names. (1) The first name of the list, in list order,
  that \<open>os.path.isfile\<close> finds at the root of the directory is the entry point; failing
  that, the first name of the list found among the files of the first directory of the
  top-down walk that lists one. (2) Failing that, the first file of the walk whose name
  ends in a supported extension. The result is \<open>None\<close> exactly when no priority name is
  a regular file at the root and the walk lists no file with a supported extension.
  A regular file \<open>main.py\<close> at the root is always the entry point. A regular file with
  any priority name at the root, \<open>main.js\<close> included, is the entry point when no earlier
  name of the list is a regular file at the root. A directory whose only entry is a
  source file with a non-priority name, no priority name being a regular file at its
  root, resolves to that file by the fallback.
\<close>

theorem find_main_file_stages:
  "find_main_file is_file directory t = spec_resolve is_file directory t
   \<and> priority_files = spec_priority_list
   \<and> (is_file (path_join directory ''main.py'') \<longrightarrow>
        find_main_file is_file directory t = Some (path_join directory ''main.py''))
   \<and> (name \<in> set priority_files \<and> is_file (path_join directory name) \<and>
        \<not> list_ex (\<lambda>earlier. is_file (path_join directory earlier))
             (takeWhile (\<lambda>n. n \<noteq> name) priority_files) \<longrightarrow>
        find_main_file is_file directory t = Some (path_join directory name))
   \<and> (supported_source fname \<and> fname \<notin> set priority_files \<and>
        \<not> list_ex (\<lambda>name. is_file (path_join directory name)) priority_files \<longrightarrow>
        find_main_file is_file directory (Dir [fname] []) = Some (path_join directory fname))
   \<and> (find_main_file is_file directory t = None \<longleftrightarrow>
        \<not> list_ex (\<lambda>name. is_file (path_join directory name)) priority_files
        \<and> \<not> list_ex (\<lambda>(dir, fname). supported_source fname) (walk_files directory t))"
proof (intro conjI impI)
  show "find_main_file is_file directory t = spec_resolve is_file directory t"
    by (rule find_main_file_spec)
  show "priority_files = spec_priority_list"
    by (rule priority_files_product)
  show "find_main_file is_file directory t = Some (path_join directory ''main.py'')"
    if "is_file (path_join directory ''main.py'')"
    using that by (rule main_py_at_root)
  show "find_main_file is_file directory t = Some (path_join directory name)"
    if "name \<in> set priority_files \<and> is_file (path_join directory name) \<and>
        \<not> list_ex (\<lambda>earlier. is_file (path_join directory earlier))
             (takeWhile (\<lambda>n. n \<noteq> name) priority_files)"
    using that priority_at_root [of name is_file directory t] by simp
  show "find_main_file is_file directory (Dir [fname] []) = Some (path_join directory fname)"
    if "supported_source fname \<and> fname \<notin> set priority_files \<and>
        \<not> list_ex (\<lambda>name. is_file (path_join directory name)) priority_files"
    using that single_file_fallback [of fname is_file directory] by simp
  show "find_main_file is_file directory t = None \<longleftrightarrow>
        \<not> list_ex (\<lambda>name. is_file (path_join directory name)) priority_files
        \<and> \<not> list_ex (\<lambda>(dir, fname). supported_source fname) (walk_files directory t)"
    by (rule not_found_iff)
qed

text \<open>
  The scenarios, in a directory \<open>/x\<close>: \<open>main.py\<close> beside \<open>bot.py\<close>; \<open>server.js\<close> as
  the only priority name; \<open>bot.py\<close> beside a \<open>main.py\<close> that is listed but is not a
  regular file (a link that leads nowhere); a single \<open>runner.py\<close>; no source file at all;
  and priority names only in the second sub-directory.
\<close>

theorem find_main_file_stages_witness:
  "find_main_file (\<lambda>p. p \<in> set [''/x/README.md'', ''/x/bot.py'', ''/x/main.py'', ''/x/lib/app.py''])
       ''/x'' (Dir [''README.md'', ''bot.py'', ''main.py''] [(''lib'', Dir [''app.py''] [])]) =
     Some ''/x/main.py''
   \<and> find_main_file (\<lambda>p. p \<in> set [''/x/notes.txt'', ''/x/server.js''])
         ''/x'' (Dir [''notes.txt'', ''server.js''] []) = Some ''/x/server.js''
   \<and> find_main_file (\<lambda>p. p = ''/x/bot.py'') ''/x'' (Dir [''main.py'', ''bot.py''] []) =
       Some ''/x/bot.py''
   \<and> find_main_file (\<lambda>p. p = ''/x/runner.py'') ''/x'' (Dir [''runner.py''] []) =
       Some ''/x/runner.py''
   \<and> find_main_file (\<lambda>p. p \<in> set [''/x/README.md'', ''/x/docs/a.txt''])
         ''/x'' (Dir [''README.md''] [(''docs'', Dir [''a.txt''] [])]) = None
   \<and> find_main_file (\<lambda>p. p \<in> set [''/x/x.py'', ''/x/a/y.js'', ''/x/b/bot.js'', ''/x/b/app.py''])
         ''/x''
         (Dir [''x.py''] [(''a'', Dir [''y.js''] []), (''b'', Dir [''bot.js'', ''app.py''] [])]) =
       Some ''/x/b/app.py''"
proof -
  have pj: "path_join ''/x'' ''main.py'' = ''/x/main.py''"
    "path_join ''/x'' ''bot.py'' = ''/x/bot.py''"
    "path_join ''/x'' ''runner.py'' = ''/x/runner.py''"
    "path_join ''/x'' ''server.js'' = ''/x/server.js''"
    by code_simp+
  have a: "find_main_file
       (\<lambda>p. p \<in> set [''/x/README.md'', ''/x/bot.py'', ''/x/main.py'', ''/x/lib/app.py''])
       ''/x'' (Dir [''README.md'', ''bot.py'', ''main.py''] [(''lib'', Dir [''app.py''] [])]) =
     Some ''/x/main.py''"
    using find_main_file_stages [where directory = "''/x''"
        and is_file = "\<lambda>p. p \<in> set [''/x/README.md'', ''/x/bot.py'', ''/x/main.py'', ''/x/lib/app.py'']"
        and t = "Dir [''README.md'', ''bot.py'', ''main.py''] [(''lib'', Dir [''app.py''] [])]",
        THEN conjunct2, THEN conjunct2, THEN conjunct1]
    by (simp add: pj)
  have server: "''server.js'' \<in> set priority_files"
    "\<not> list_ex (\<lambda>earlier. path_join ''/x'' earlier \<in> set [''/x/notes.txt'', ''/x/server.js''])
         (takeWhile (\<lambda>n. n \<noteq> ''server.js'') priority_files)"
    by code_simp+
  have b: "find_main_file (\<lambda>p. p \<in> set [''/x/notes.txt'', ''/x/server.js''])
         ''/x'' (Dir [''notes.txt'', ''server.js''] []) = Some ''/x/server.js''"
    using find_main_file_stages [where directory = "''/x''" and name = "''server.js''"
        and is_file = "\<lambda>p. p \<in> set [''/x/notes.txt'', ''/x/server.js'']"
        and t = "Dir [''notes.txt'', ''server.js''] []",
        THEN conjunct2, THEN conjunct2, THEN conjunct2, THEN conjunct1] server
    by (simp add: pj)
  have bot: "''bot.py'' \<in> set priority_files"
    "\<not> list_ex (\<lambda>earlier. path_join ''/x'' earlier = ''/x/bot.py'')
         (takeWhile (\<lambda>n. n \<noteq> ''bot.py'') priority_files)"
    by code_simp+
  have c: "find_main_file (\<lambda>p. p = ''/x/bot.py'') ''/x'' (Dir [''main.py'', ''bot.py''] []) =
       Some ''/x/bot.py''"
    using find_main_file_stages [where directory = "''/x''" and name = "''bot.py''"
        and is_file = "\<lambda>p. p = ''/x/bot.py''" and t = "Dir [''main.py'', ''bot.py''] []",
        THEN conjunct2, THEN conjunct2, THEN conjunct2, THEN conjunct1] bot
    by (simp add: pj)
  have runner: "supported_source ''runner.py''" "''runner.py'' \<notin> set priority_files"
    "\<not> list_ex (\<lambda>name. path_join ''/x'' name = ''/x/runner.py'') priority_files"
    by code_simp+
  have d: "find_main_file (\<lambda>p. p = ''/x/runner.py'') ''/x'' (Dir [''runner.py''] []) =
       Some ''/x/runner.py''"
    using find_main_file_stages [where directory = "''/x''" and fname = "''runner.py''"
        and is_file = "\<lambda>p. p = ''/x/runner.py''",
        THEN conjunct2, THEN conjunct2, THEN conjunct2, THEN conjunct2, THEN conjunct1] runner
    by (simp add: pj)
  have docs: "\<not> list_ex (\<lambda>name. path_join ''/x'' name \<in> set [''/x/README.md'', ''/x/docs/a.txt''])
                 priority_files"
    "\<not> list_ex (\<lambda>(dir, fname). supported_source fname)
         (walk_files ''/x'' (Dir [''README.md''] [(''docs'', Dir [''a.txt''] [])]))"
    by code_simp+
  have e: "find_main_file (\<lambda>p. p \<in> set [''/x/README.md'', ''/x/docs/a.txt''])
         ''/x'' (Dir [''README.md''] [(''docs'', Dir [''a.txt''] [])]) = None"
    using find_main_file_stages [where directory = "''/x''"
        and is_file = "\<lambda>p. p \<in> set [''/x/README.md'', ''/x/docs/a.txt'']"
        and t = "Dir [''README.md''] [(''docs'', Dir [''a.txt''] [])]",
        THEN conjunct2, THEN conjunct2, THEN conjunct2, THEN conjunct2, THEN conjunct2] docs
    by blast
  have nested: "spec_resolve
      (\<lambda>p. p \<in> set [''/x/x.py'', ''/x/a/y.js'', ''/x/b/bot.js'', ''/x/b/app.py'']) ''/x''
      (Dir [''x.py''] [(''a'', Dir [''y.js''] []), (''b'', Dir [''bot.js'', ''app.py''] [])]) =
     Some ''/x/b/app.py''"
    by code_simp
  have f: "find_main_file
         (\<lambda>p. p \<in> set [''/x/x.py'', ''/x/a/y.js'', ''/x/b/bot.js'', ''/x/b/app.py''])
         ''/x''
         (Dir [''x.py''] [(''a'', Dir [''y.js''] []), (''b'', Dir [''bot.js'', ''app.py''] [])]) =
       Some ''/x/b/app.py''"
    using find_main_file_stages [where directory = "''/x''"
        and is_file = "\<lambda>p. p \<in> set [''/x/x.py'', ''/x/a/y.js'', ''/x/b/bot.js'', ''/x/b/app.py'']"
        and t = "Dir [''x.py''] [(''a'', Dir [''y.js''] []), (''b'', Dir [''bot.js'', ''app.py''] [])]",
        THEN conjunct1] nested
    by simp
  show ?thesis
    using a b c d e f by blast
qed

text \<open>
  C5 as stated fails where it says that a priority-named main file at the root resolves
  to that file: \<open>main.js\<close> is such a file, a regular file at the root of \<open>/x\<close>, and
  beside it lies \<open>bot.py\<close>. Every \<open>.py\<close> name of the priority list comes before
  every \<open>.js\<close> name, so the resolver returns \<open>bot.py\<close>.
\<close>

theorem find_main_file_main_js_counterexample:
  "''main.js'' \<in> set priority_files
   \<and> ''main.js'' \<in> set (dir_files (Dir [''main.js'', ''bot.py''] []))
   \<and> find_main_file (\<lambda>p. p \<in> set [''/x/main.js'', ''/x/bot.py'']) ''/x''
         (Dir [''main.js'', ''bot.py''] []) = Some ''/x/bot.py''
   \<and> find_main_file (\<lambda>p. p \<in> set [''/x/main.js'', ''/x/bot.py'']) ''/x''
         (Dir [''main.js'', ''bot.py''] []) \<noteq> Some (path_join ''/x'' ''main.js'')"
  by code_simp

section \<open>Properties of start and of the monitor\<close>

text \<open>How the database helpers act on the parts of the state.\<close>


lemma get_file_record_update_file_status:
  "get_file_record (update_file_status file_id pid status st) file_id' =
     (if file_id' = file_id
      then map_option (\<lambda>r. r\<lparr>f_pid := pid, f_status := status\<rparr>) (get_file_record st file_id)
      else get_file_record st file_id')"
  by (auto simp add: get_file_record_def update_file_status_def lookup_map_entry')

lemma update_file_status_fields:
  "runs (update_file_status file_id pid status st) = runs st"
  "processes (update_file_status file_id pid status st) = processes st"
  "procs (update_file_status file_id pid status st) = procs st"
  "spawned (update_file_status file_id pid status st) = spawned st"
  "sent_signals (update_file_status file_id pid status st) = sent_signals st"
  "monitors (update_file_status file_id pid status st) = monitors st"
  "removed_paths (update_file_status file_id pid status st) = removed_paths st"
  by (simp_all add: update_file_status_def)

lemma record_run_finish_fields:
  "files (record_run_finish h run_id exit_code st) = files st"
  "processes (record_run_finish h run_id exit_code st) = processes st"
  "procs (record_run_finish h run_id exit_code st) = procs st"
  "spawned (record_run_finish h run_id exit_code st) = spawned st"
  "sent_signals (record_run_finish h run_id exit_code st) = sent_signals st"
  "monitors (record_run_finish h run_id exit_code st) = monitors st"
  "removed_paths (record_run_finish h run_id exit_code st) = removed_paths st"
  "length (runs (record_run_finish h run_id exit_code st)) = length (runs st)"
  by (simp_all add: record_run_finish_def)

lemma record_run_finish_closes:
  "0 < run_id \<Longrightarrow> run_id \<le> length (runs st) \<Longrightarrow>
   runs (record_run_finish h run_id exit_code st) ! (run_id - 1) =
     (runs st ! (run_id - 1))\<lparr>r_finished_at := Some (clock h), r_exit_code := Some exit_code\<rparr>"
  by (simp add: record_run_finish_def)

lemma get_file_record_record_run_finish:
  "get_file_record (record_run_finish h run_id exit_code st) = get_file_record st"
  by (simp add: fun_eq_iff get_file_record_def record_run_finish_fields)

text \<open>What the monitor leaves behind, whatever \<open>wait()\<close> did.\<close>

lemma monitor_process_state:
  "fst (monitor_process h m waited st) =
     (record_run_finish h (m_run_id m) (case waited of Returns c \<Rightarrow> c | Raises e \<Rightarrow> - 1)
        (update_file_status (m_file_id m) None Stopped st))
       \<lparr>processes := Mapping.delete (m_file_id m) (processes st)\<rparr>"
  by (simp add: monitor_process_def Let_def record_run_finish_fields update_file_status_fields)

text \<open>A successful spawn opens a run and starts the monitor that will close it.\<close>

lemma spawn_and_record_success:
  assumes "popen h cmd working_dir (log_path_of h file_id) = Returns pid"
  shows "spawned (fst (spawn_and_record h file_id chat_id name cmd working_dir st)) =
           spawned st @ [(pid, cmd)]"
    and "runs (fst (spawn_and_record h file_id chat_id name cmd working_dir st)) =
           runs st @
             [\<lparr>r_file_id = file_id, r_started_at = clock h, r_finished_at = None, r_pid = pid,
               r_log_path = log_path_of h file_id, r_exit_code = None\<rparr>]"
    and "monitors (fst (spawn_and_record h file_id chat_id name cmd working_dir st)) =
           (case send_started h of
              None \<Rightarrow>
                monitors st @
                  [\<lparr>m_process = pid, m_file_id = file_id, m_run_id = Suc (length (runs st)),
                    m_chat_id = chat_id, m_original_name = name\<rparr>]
            | Some e \<Rightarrow> monitors st)"
    and "Mapping.lookup (processes (fst (spawn_and_record h file_id chat_id name cmd working_dir st)))
           file_id =
           Some \<lparr>j_process = pid, j_run_id = Suc (length (runs st)),
                  j_log_path = log_path_of h file_id, j_started_at = clock h\<rparr>"
    and "procs (fst (spawn_and_record h file_id chat_id name cmd working_dir st)) =
           (procs st)(pid \<mapsto> Alive)"
    and "get_file_record (fst (spawn_and_record h file_id chat_id name cmd working_dir st)) file_id =
           map_option (\<lambda>r. r\<lparr>f_pid := Some pid, f_status := Running\<rparr>) (get_file_record st file_id)"
  using assms
  by (simp_all add: spawn_and_record_def Let_def record_run_start_def update_file_status_def
      get_file_record_def lookup_map_entry' split: option.splits)

lemma spawn_and_record_failure:
  "popen h cmd working_dir (log_path_of h file_id) = Raises e \<Longrightarrow>
   spawn_and_record h file_id chat_id name cmd working_dir st =
     (st, [SendMessage chat_id (FailedToStart e)])"
  by (simp add: spawn_and_record_def Let_def)

text \<open>\<open>start_file_process\<close> changes the state only through the spawn block.\<close>

lemma start_file_process_cases:
  "fst (start_file_process cfg h file_id chat_id st) = st
   \<or> (\<exists>name cmd working_dir.
         fst (start_file_process cfg h file_id chat_id st) =
           fst (spawn_and_record h file_id chat_id name cmd working_dir st))"
proof -
  obtain rejected reason
    where load: "should_stop_due_to_load cfg (get_system_load h st) = (rejected, reason)"
    by fastforce
  show ?thesis
  proof (cases rejected)
    case True
    with load show ?thesis by (simp add: start_file_process_def)
  next
    case False
    with load have admitted:
      "should_stop_due_to_load cfg (get_system_load h st) = (False, reason)"
      by simp
    show ?thesis
    proof (cases "get_file_record st file_id")
      case None
      with admitted show ?thesis by (simp add: start_file_process_def)
    next
      case (Some file_record)
      note found = Some
      show ?thesis
      proof (cases "determine_target h (f_path file_record)")
        case (Inl msg)
        with admitted found show ?thesis by (simp add: start_file_process_def)
      next
        case (Inr target)
        obtain target_file working_dir where target: "target = (target_file, working_dir)"
          by (cases target)
        obtain ev raised where deps:
          "(if lower (splitext_ext target_file) = ''.py''
            then install_dependencies h chat_id target_file working_dir
            else ([], None)) = (ev, raised)"
          by fastforce
        show ?thesis
        proof (cases raised)
          case (Some e)
          with admitted found Inr target deps show ?thesis
            by (simp add: start_file_process_def Let_def)
        next
          case None
          note quiet = None
          show ?thesis
          proof (cases "prepare_command h (lower (splitext_ext target_file)) target_file")
            case None
            with admitted found Inr target deps quiet show ?thesis
              by (simp add: start_file_process_def Let_def)
          next
            case (Some cmd)
            with admitted found Inr target deps quiet
            have "fst (start_file_process cfg h file_id chat_id st) =
                fst (spawn_and_record h file_id chat_id (f_orig_name file_record) cmd working_dir st)"
              by (simp add: start_file_process_def Let_def split: prod.splits)
            then show ?thesis by blast
          qed
        qed
      qed
    qed
  qed
qed

lemma start_file_process_spawn:
  assumes "spawned (fst (start_file_process cfg h file_id chat_id st)) \<noteq> spawned st"
    and "send_started h = None"
  shows "\<exists>pid cmd name.
     spawned (fst (start_file_process cfg h file_id chat_id st)) = spawned st @ [(pid, cmd)]
     \<and> runs (fst (start_file_process cfg h file_id chat_id st)) =
           runs st @
             [\<lparr>r_file_id = file_id, r_started_at = clock h, r_finished_at = None, r_pid = pid,
               r_log_path = log_path_of h file_id, r_exit_code = None\<rparr>]
     \<and> monitors (fst (start_file_process cfg h file_id chat_id st)) =
           monitors st @
             [\<lparr>m_process = pid, m_file_id = file_id, m_run_id = Suc (length (runs st)),
               m_chat_id = chat_id, m_original_name = name\<rparr>]"
proof -
  from start_file_process_cases [of cfg h file_id chat_id st] assms
  obtain name cmd working_dir where eq:
    "fst (start_file_process cfg h file_id chat_id st) =
       fst (spawn_and_record h file_id chat_id name cmd working_dir st)"
    by auto
  show ?thesis
  proof (cases "popen h cmd working_dir (log_path_of h file_id)")
    case (Raises e)
    with eq assms show ?thesis
      by (simp add: spawn_and_record_failure)
  next
    case (Returns pid)
    from spawn_and_record_success(1-3) [OF Returns, of chat_id name st] eq assms(2)
    show ?thesis by auto
  qed
qed

text \<open>
  C1 does not hold of the code: \<open>start_file_process\<close> never looks at the file's status or
  at \<open>processes\<close> before it spawns. In the scenario the first script is Running with one
  live process (pid 100) and one open run; a second start is admitted, spawns pid 101,
  opens a second run and overwrites the entry in \<open>processes\<close>, so that the file has two
  live processes and two open runs and the handle of the first process is lost.
\<close>

theorem start_on_running_spawns_again:
  "map_option f_status (get_file_record ex_running 1) = Some Running
   \<and> map_option j_process (Mapping.lookup (processes ex_running) 1) = Some 100
   \<and> live_pids ex_running 1 = [100]
   \<and> length (open_runs ex_running 1) = 1
   \<and> snd (start_file_process ex_cfg ex_host_later 1 7 ex_running) =
        ([SendMessage 7 CheckingImports,
          SendMessage 7 (ProcessStarted ''bot.py'' 101 ''file_1_1001.log'')], None)
   \<and> spawned ex_started_twice =
        [(100, [''python3'', ''/data/uploads/42/1_bot.py'']),
         (101, [''python3'', ''/data/uploads/42/1_bot.py''])]
   \<and> live_pids ex_started_twice 1 = [100, 101]
   \<and> length (open_runs ex_started_twice 1) = 2
   \<and> map_option j_process (Mapping.lookup (processes ex_started_twice) 1) = Some 101"
  by code_simp

text \<open>
  The monitor. When the start has been reported, every process that
  \<open>start_file_process\<close> spawns gets a run row, open, and a monitor thread holding that
  run's id. When the monitor's \<open>wait()\<close> comes back, with an exit code or with an
  exception, the monitor marks the file Stopped with no pid, closes the run with the
  observed exit code (\<open>-1\<close> when \<open>wait()\<close> raised), and removes the file's entry from
  \<open>processes\<close>: the clean-up does not depend on how the wait ended.
\<close>

theorem monitor_cleanup:
  "(spawned (fst (start_file_process cfg h file_id chat_id st)) \<noteq> spawned st \<and>
    send_started h = None \<longrightarrow>
      (\<exists>pid cmd name.
         spawned (fst (start_file_process cfg h file_id chat_id st)) = spawned st @ [(pid, cmd)]
         \<and> runs (fst (start_file_process cfg h file_id chat_id st)) =
               runs st @
                 [\<lparr>r_file_id = file_id, r_started_at = clock h, r_finished_at = None,
                   r_pid = pid, r_log_path = log_path_of h file_id, r_exit_code = None\<rparr>]
         \<and> monitors (fst (start_file_process cfg h file_id chat_id st)) =
               monitors st @
                 [\<lparr>m_process = pid, m_file_id = file_id, m_run_id = Suc (length (runs st)),
                   m_chat_id = chat_id, m_original_name = name\<rparr>]))
   \<and> Mapping.lookup (processes (fst (monitor_process h' m waited st'))) (m_file_id m) = None
   \<and> get_file_record (fst (monitor_process h' m waited st')) (m_file_id m) =
         map_option (\<lambda>r. r\<lparr>f_pid := None, f_status := Stopped\<rparr>)
           (get_file_record st' (m_file_id m))
   \<and> (0 < m_run_id m \<and> m_run_id m \<le> length (runs st') \<longrightarrow>
         runs (fst (monitor_process h' m waited st')) ! (m_run_id m - 1) =
           (runs st' ! (m_run_id m - 1))
             \<lparr>r_finished_at := Some (clock h'),
              r_exit_code := Some (case waited of Returns c \<Rightarrow> c | Raises e \<Rightarrow> - 1)\<rparr>)"
proof (intro conjI impI)
  assume "spawned (fst (start_file_process cfg h file_id chat_id st)) \<noteq> spawned st \<and>
    send_started h = None"
  then show "\<exists>pid cmd name.
         spawned (fst (start_file_process cfg h file_id chat_id st)) = spawned st @ [(pid, cmd)]
         \<and> runs (fst (start_file_process cfg h file_id chat_id st)) =
               runs st @
                 [\<lparr>r_file_id = file_id, r_started_at = clock h, r_finished_at = None,
                   r_pid = pid, r_log_path = log_path_of h file_id, r_exit_code = None\<rparr>]
         \<and> monitors (fst (start_file_process cfg h file_id chat_id st)) =
               monitors st @
                 [\<lparr>m_process = pid, m_file_id = file_id, m_run_id = Suc (length (runs st)),
                   m_chat_id = chat_id, m_original_name = name\<rparr>]"
    by (intro start_file_process_spawn) simp_all
next
  show "Mapping.lookup (processes (fst (monitor_process h' m waited st'))) (m_file_id m) = None"
    by (simp add: monitor_process_state)
next
  show "get_file_record (fst (monitor_process h' m waited st')) (m_file_id m) =
         map_option (\<lambda>r. r\<lparr>f_pid := None, f_status := Stopped\<rparr>)
           (get_file_record st' (m_file_id m))"
    by (simp add: monitor_process_state get_file_record_def record_run_finish_fields
        update_file_status_def lookup_map_entry')
next
  assume range: "0 < m_run_id m \<and> m_run_id m \<le> length (runs st')"
  then have "m_run_id m - 1 < length (runs st')"
    by arith
  with range show "runs (fst (monitor_process h' m waited st')) ! (m_run_id m - 1) =
           (runs st' ! (m_run_id m - 1))
             \<lparr>r_finished_at := Some (clock h'),
              r_exit_code := Some (case waited of Returns c \<Rightarrow> c | Raises e \<Rightarrow> - 1)\<rparr>"
    by (simp add: monitor_process_state record_run_finish_def update_file_status_fields)
qed

text \<open>
  The scenario: the first script is started, then exits at once with code 0 (or its
  monitor's \<open>wait()\<close> raises); no \<open>stop\<close> is called.
\<close>

lemma ex_running_spawned: "spawned ex_running \<noteq> spawned ex_idle"
  by code_simp

lemma ex_running_runs:
  "runs ex_running =
     [\<lparr>r_file_id = 1, r_started_at = 1000, r_finished_at = None, r_pid = 100,
       r_log_path = ''/data/logs/file_1_1000.log'', r_exit_code = None\<rparr>]"
  by code_simp

lemma ex_running_file:
  "get_file_record ex_running 1 = Some (ex_bot\<lparr>f_pid := Some 100, f_status := Running\<rparr>)"
  by code_simp

theorem monitor_cleanup_witness:
  "(\<exists>pid cmd name.
      spawned ex_running = spawned ex_idle @ [(pid, cmd)]
      \<and> runs ex_running =
            runs ex_idle @
              [\<lparr>r_file_id = 1, r_started_at = clock ex_host, r_finished_at = None,
                r_pid = pid, r_log_path = log_path_of ex_host 1, r_exit_code = None\<rparr>]
      \<and> monitors ex_running =
            monitors ex_idle @
              [\<lparr>m_process = pid, m_file_id = 1, m_run_id = Suc (length (runs ex_idle)),
                m_chat_id = 7, m_original_name = name\<rparr>])
   \<and> Mapping.lookup (processes (fst (monitor_process ex_host_later
          \<lparr>m_process = 100, m_file_id = 1, m_run_id = 1, m_chat_id = 7,
           m_original_name = ''bot.py''\<rparr> (Returns 0) ex_running))) 1 = None
   \<and> get_file_record (fst (monitor_process ex_host_later
          \<lparr>m_process = 100, m_file_id = 1, m_run_id = 1, m_chat_id = 7,
           m_original_name = ''bot.py''\<rparr> (Returns 0) ex_running)) 1 = Some ex_bot
   \<and> runs (fst (monitor_process ex_host_later
          \<lparr>m_process = 100, m_file_id = 1, m_run_id = 1, m_chat_id = 7,
           m_original_name = ''bot.py''\<rparr> (Returns 0) ex_running)) ! 0 =
        \<lparr>r_file_id = 1, r_started_at = 1000, r_finished_at = Some 1001, r_pid = 100,
         r_log_path = ''/data/logs/file_1_1000.log'', r_exit_code = Some 0\<rparr>
   \<and> runs (fst (monitor_process ex_host_later
          \<lparr>m_process = 100, m_file_id = 1, m_run_id = 1, m_chat_id = 7,
           m_original_name = ''bot.py''\<rparr> (Raises ''interrupted'') ex_running)) ! 0 =
        \<lparr>r_file_id = 1, r_started_at = 1000, r_finished_at = Some 1001, r_pid = 100,
         r_log_path = ''/data/logs/file_1_1000.log'', r_exit_code = Some (- 1)\<rparr>"
proof -
  note at_start = monitor_cleanup [where cfg = ex_cfg and h = ex_host and file_id = 1
      and chat_id = 7 and st = ex_idle and h' = ex_host_later and st' = ex_running
      and m = "\<lparr>m_process = 100, m_file_id = 1, m_run_id = 1, m_chat_id = 7,
                m_original_name = ''bot.py''\<rparr>"]
  have later: "clock ex_host_later = 1001"
    by (simp add: ex_host_later_def)
  have bot: "ex_bot\<lparr>f_pid := None, f_status := Stopped\<rparr> = ex_bot"
    by (simp add: ex_bot_def)
  have reported: "send_started ex_host = None"
    by (simp add: ex_host_def)
  from at_start [where waited = "Returns 0"] at_start [where waited = "Raises ''interrupted''"]
    ex_running_spawned reported
  show ?thesis
    by (simp add: ex_running_def [symmetric] ex_running_runs ex_running_file later bot)
qed

text \<open>
  C3 does not hold of the code for every spawned process. The monitor thread is started
  last in the \<open>try\<close> block of \<open>start_file_process\<close>, after the message that reports the
  start. When sending that message raises, the handler reports a failed start, but the
  process has been spawned, its run is open, the file is Running and its job is in
  \<open>processes\<close>, and no monitor exists that would ever close the run or mark the file
  Stopped when the process exits.
\<close>

theorem start_without_monitor:
  "spawned (fst (start_file_process ex_cfg ex_host_unreachable 1 7 ex_idle)) =
     [(100, [''python3'', ''/data/uploads/42/1_bot.py''])]
   \<and> live_pids (fst (start_file_process ex_cfg ex_host_unreachable 1 7 ex_idle)) 1 = [100]
   \<and> length (open_runs (fst (start_file_process ex_cfg ex_host_unreachable 1 7 ex_idle)) 1) = 1
   \<and> map_option f_status
         (get_file_record (fst (start_file_process ex_cfg ex_host_unreachable 1 7 ex_idle)) 1) =
       Some Running
   \<and> map_option j_process
         (Mapping.lookup (processes (fst (start_file_process ex_cfg ex_host_unreachable 1 7 ex_idle)))
            1) = Some 100
   \<and> monitors (fst (start_file_process ex_cfg ex_host_unreachable 1 7 ex_idle)) = []
   \<and> snd (start_file_process ex_cfg ex_host_unreachable 1 7 ex_idle) =
       ([SendMessage 7 CheckingImports, SendMessage 7 (FailedToStart ''Read timed out'')], None)"
  by code_simp

section \<open>Properties of stop\<close>

text \<open>Marking a file Stopped twice is marking it once; on a file that is Stopped it changes nothing.\<close>

lemma update_file_status_idem:
  "update_file_status file_id pid status (update_file_status file_id pid status st) =
     update_file_status file_id pid status st"
proof -
  have "Mapping.map_entry file_id (\<lambda>r. r\<lparr>f_pid := pid, f_status := status\<rparr>)
          (Mapping.map_entry file_id (\<lambda>r. r\<lparr>f_pid := pid, f_status := status\<rparr>) (files st)) =
        Mapping.map_entry file_id (\<lambda>r. r\<lparr>f_pid := pid, f_status := status\<rparr>) (files st)"
    by (rule mapping_eqI) (simp add: lookup_map_entry' option.map_comp comp_def)
  then show ?thesis
    by (simp add: update_file_status_def)
qed

lemma update_file_status_noop:
  assumes "get_file_record st file_id = None
     \<or> (\<exists>r. get_file_record st file_id = Some r \<and> f_status r = status \<and> f_pid r = pid)"
  shows "update_file_status file_id pid status st = st"
proof -
  have "Mapping.map_entry file_id (\<lambda>r. r\<lparr>f_pid := pid, f_status := status\<rparr>) (files st) = files st"
  proof (rule mapping_eqI)
    fix k
    show "Mapping.lookup (Mapping.map_entry file_id (\<lambda>r. r\<lparr>f_pid := pid, f_status := status\<rparr>)
            (files st)) k = Mapping.lookup (files st) k"
      using assms by (auto simp add: lookup_map_entry' get_file_record_def)
  qed
  then show ?thesis
    by (simp add: update_file_status_def)
qed

lemma terminate_process_fields:
  "files (snd (terminate_process h pid st)) = files st"
  "runs (snd (terminate_process h pid st)) = runs st"
  "processes (snd (terminate_process h pid st)) = processes st"
  "spawned (snd (terminate_process h pid st)) = spawned st"
  "monitors (snd (terminate_process h pid st)) = monitors st"
  "removed_paths (snd (terminate_process h pid st)) = removed_paths st"
  by (simp_all add: terminate_process_def split: term_outcome.splits)

lemma stop_file_process_no_job:
  "Mapping.lookup (processes st) file_id = None \<Longrightarrow>
   stop_file_process h file_id st = (False, update_file_status file_id None Stopped st)"
  by (simp add: stop_file_process_def)

lemma stop_file_process_job:
  "Mapping.lookup (processes st) file_id = Some job \<Longrightarrow>
   stop_file_process h file_id st =
     (fst (terminate_process h (j_process job) st),
      update_file_status file_id None Stopped
        ((snd (terminate_process h (j_process job) st))
           \<lparr>processes := Mapping.delete file_id (processes st)\<rparr>))"
proof -
  assume job: "Mapping.lookup (processes st) file_id = Some job"
  obtain stopped st1 where t: "terminate_process h (j_process job) st = (stopped, st1)"
    by fastforce
  from terminate_process_fields(3) [of h "j_process job" st] t
  have "processes st1 = processes st" by simp
  with job t show ?thesis
    by (simp add: stop_file_process_def)
qed

lemma stop_file_process_removes_job:
  "Mapping.lookup (processes (snd (stop_file_process h file_id st))) file_id = None"
  by (cases "Mapping.lookup (processes st) file_id")
     (simp_all add: stop_file_process_no_job stop_file_process_job update_file_status_fields)

lemma stop_file_process_marks_stopped:
  "get_file_record (snd (stop_file_process h file_id st)) file_id =
     map_option (\<lambda>r. r\<lparr>f_pid := None, f_status := Stopped\<rparr>) (get_file_record st file_id)"
  by (cases "Mapping.lookup (processes st) file_id")
     (simp_all add: stop_file_process_no_job stop_file_process_job get_file_record_def
        update_file_status_def lookup_map_entry' terminate_process_fields)

lemma stop_file_process_twice:
  "snd (stop_file_process h' file_id (snd (stop_file_process h file_id st))) =
     snd (stop_file_process h file_id st)"
proof -
  have "snd (stop_file_process h' file_id (snd (stop_file_process h file_id st))) =
      update_file_status file_id None Stopped (snd (stop_file_process h file_id st))"
    by (simp add: stop_file_process_no_job [OF stop_file_process_removes_job])
  also have "\<dots> = snd (stop_file_process h file_id st)"
    by (cases "Mapping.lookup (processes st) file_id")
       (simp_all add: stop_file_process_no_job stop_file_process_job update_file_status_idem)
  finally show ?thesis .
qed

lemma stop_file_process_signals:
  assumes "Mapping.lookup (processes st) file_id = Some job"
    and "is_alive st (j_process job)"
  shows "on_terminate h (j_process job) 5 = ExitsWithin c \<Longrightarrow>
      fst (stop_file_process h file_id st)
      \<and> sent_signals (snd (stop_file_process h file_id st)) =
            sent_signals st @ [(j_process job, SIGTERM)]
      \<and> procs (snd (stop_file_process h file_id st)) (j_process job) = Some (Exited c)"
    and "on_terminate h (j_process job) 5 = StillAlive \<Longrightarrow>
      fst (stop_file_process h file_id st)
      \<and> sent_signals (snd (stop_file_process h file_id st)) =
            sent_signals st @ [(j_process job, SIGTERM), (j_process job, SIGKILL)]
      \<and> procs (snd (stop_file_process h file_id st)) (j_process job) = Some (Exited (- 9))"
  using assms
  by (simp_all add: stop_file_process_job terminate_process_def update_file_status_fields)

text \<open>
  C8. On a file that is Stopped (no entry in \<open>processes\<close>, and its row, if there is one,
  with status Stopped and no pid, as upload, stop and the monitor leave it)
  \<open>stop_file_process\<close> returns \<open>False\<close> and the state is unchanged; without a live job no
  signal is ever sent. Stopping twice gives the state of stopping once. With a live job
  whose process is alive, \<open>terminate()\<close> is sent and the process is waited for 5 seconds;
  if it has not exited by then, \<open>kill()\<close> follows and it is dead afterwards. In every
  case the file's entry is removed from \<open>processes\<close> and its row is Stopped with no pid.
\<close>

theorem stop_file_process_idempotent:
  "(Mapping.lookup (processes st) file_id = None \<and>
      (get_file_record st file_id = None \<or>
       (\<exists>r. get_file_record st file_id = Some r \<and> f_status r = Stopped \<and> f_pid r = None)) \<longrightarrow>
      stop_file_process h file_id st = (False, st))
   \<and> (Mapping.lookup (processes st) file_id = None \<longrightarrow>
        sent_signals (snd (stop_file_process h file_id st)) = sent_signals st
        \<and> procs (snd (stop_file_process h file_id st)) = procs st)
   \<and> snd (stop_file_process h' file_id (snd (stop_file_process h file_id st))) =
        snd (stop_file_process h file_id st)
   \<and> Mapping.lookup (processes (snd (stop_file_process h file_id st))) file_id = None
   \<and> get_file_record (snd (stop_file_process h file_id st)) file_id =
        map_option (\<lambda>r. r\<lparr>f_pid := None, f_status := Stopped\<rparr>) (get_file_record st file_id)
   \<and> (Mapping.lookup (processes st) file_id = Some job \<and> is_alive st (j_process job) \<and>
        on_terminate h (j_process job) 5 = ExitsWithin c \<longrightarrow>
        fst (stop_file_process h file_id st)
        \<and> sent_signals (snd (stop_file_process h file_id st)) =
              sent_signals st @ [(j_process job, SIGTERM)]
        \<and> procs (snd (stop_file_process h file_id st)) (j_process job) = Some (Exited c))
   \<and> (Mapping.lookup (processes st) file_id = Some job \<and> is_alive st (j_process job) \<and>
        on_terminate h (j_process job) 5 = StillAlive \<longrightarrow>
        fst (stop_file_process h file_id st)
        \<and> sent_signals (snd (stop_file_process h file_id st)) =
              sent_signals st @ [(j_process job, SIGTERM), (j_process job, SIGKILL)]
        \<and> procs (snd (stop_file_process h file_id st)) (j_process job) = Some (Exited (- 9)))"
proof (intro conjI impI)
  assume a: "Mapping.lookup (processes st) file_id = None \<and>
      (get_file_record st file_id = None \<or>
       (\<exists>r. get_file_record st file_id = Some r \<and> f_status r = Stopped \<and> f_pid r = None))"
  then have "update_file_status file_id None Stopped st = st"
    by (intro update_file_status_noop) simp
  with a show "stop_file_process h file_id st = (False, st)"
    by (simp add: stop_file_process_no_job)
next
  assume "Mapping.lookup (processes st) file_id = None"
  then show "sent_signals (snd (stop_file_process h file_id st)) = sent_signals st"
    and "procs (snd (stop_file_process h file_id st)) = procs st"
    by (simp_all add: stop_file_process_no_job update_file_status_fields)
next
  show "snd (stop_file_process h' file_id (snd (stop_file_process h file_id st))) =
        snd (stop_file_process h file_id st)"
    by (rule stop_file_process_twice)
next
  show "Mapping.lookup (processes (snd (stop_file_process h file_id st))) file_id = None"
    by (rule stop_file_process_removes_job)
next
  show "get_file_record (snd (stop_file_process h file_id st)) file_id =
        map_option (\<lambda>r. r\<lparr>f_pid := None, f_status := Stopped\<rparr>) (get_file_record st file_id)"
    by (rule stop_file_process_marks_stopped)
next
  assume a: "Mapping.lookup (processes st) file_id = Some job \<and> is_alive st (j_process job) \<and>
        on_terminate h (j_process job) 5 = ExitsWithin c"
  from a stop_file_process_signals(1) [of st file_id job h c]
  show "fst (stop_file_process h file_id st)"
    and "sent_signals (snd (stop_file_process h file_id st)) =
              sent_signals st @ [(j_process job, SIGTERM)]"
    and "procs (snd (stop_file_process h file_id st)) (j_process job) = Some (Exited c)"
    by simp_all
next
  assume a: "Mapping.lookup (processes st) file_id = Some job \<and> is_alive st (j_process job) \<and>
        on_terminate h (j_process job) 5 = StillAlive"
  from a stop_file_process_signals(2) [of st file_id job h]
  show "fst (stop_file_process h file_id st)"
    and "sent_signals (snd (stop_file_process h file_id st)) =
              sent_signals st @ [(j_process job, SIGTERM), (j_process job, SIGKILL)]"
    and "procs (snd (stop_file_process h file_id st)) (j_process job) = Some (Exited (- 9))"
    by simp_all
qed

text \<open>The scenario: the running script is stopped, by a host on which it exits and by one on which it must be killed.\<close>

lemma ex_idle_stopped:
  "Mapping.lookup (processes ex_idle) 1 = None" "get_file_record ex_idle 1 = Some ex_bot"
  "f_status ex_bot = Stopped" "f_pid ex_bot = None"
  by code_simp+

lemma ex_running_job:
  "Mapping.lookup (processes ex_running) 1 =
     Some \<lparr>j_process = 100, j_run_id = 1, j_log_path = ''/data/logs/file_1_1000.log'',
            j_started_at = 1000\<rparr>"
  "is_alive ex_running 100" "sent_signals ex_running = []"
  by code_simp+

theorem stop_file_process_idempotent_witness:
  "stop_file_process ex_host 1 ex_idle = (False, ex_idle)
   \<and> fst (stop_file_process ex_host 1 ex_running)
   \<and> sent_signals (snd (stop_file_process ex_host 1 ex_running)) = [(100, SIGTERM)]
   \<and> sent_signals (snd (stop_file_process ex_host_stubborn 1 ex_running)) =
        [(100, SIGTERM), (100, SIGKILL)]
   \<and> procs (snd (stop_file_process ex_host_stubborn 1 ex_running)) 100 = Some (Exited (- 9))
   \<and> snd (stop_file_process ex_host 1 (snd (stop_file_process ex_host_stubborn 1 ex_running))) =
        snd (stop_file_process ex_host_stubborn 1 ex_running)
   \<and> Mapping.lookup (processes (snd (stop_file_process ex_host 1 ex_running))) 1 = None
   \<and> get_file_record (snd (stop_file_process ex_host 1 ex_running)) 1 = Some ex_bot"
proof -
  have react: "on_terminate ex_host 100 5 = ExitsWithin 0"
    "on_terminate ex_host_stubborn 100 5 = StillAlive"
    by (simp_all add: ex_host_def ex_host_stubborn_def)
  have bot: "ex_bot\<lparr>f_pid := None, f_status := Stopped\<rparr> = ex_bot"
    by (simp add: ex_bot_def)
  have a: "stop_file_process ex_host 1 ex_idle = (False, ex_idle)"
    using stop_file_process_idempotent [where st = ex_idle and file_id = 1 and h = ex_host,
        THEN conjunct1] ex_idle_stopped
    by simp
  have b: "fst (stop_file_process ex_host 1 ex_running)
      \<and> sent_signals (snd (stop_file_process ex_host 1 ex_running)) = [(100, SIGTERM)]"
    using stop_file_process_idempotent [where st = ex_running and file_id = 1 and h = ex_host
        and c = 0 and job = "\<lparr>j_process = 100, j_run_id = 1,
          j_log_path = ''/data/logs/file_1_1000.log'', j_started_at = 1000\<rparr>",
        THEN conjunct2, THEN conjunct2, THEN conjunct2, THEN conjunct2, THEN conjunct2,
        THEN conjunct1]
      ex_running_job react
    by simp
  have c: "sent_signals (snd (stop_file_process ex_host_stubborn 1 ex_running)) =
        [(100, SIGTERM), (100, SIGKILL)]
      \<and> procs (snd (stop_file_process ex_host_stubborn 1 ex_running)) 100 = Some (Exited (- 9))"
    using stop_file_process_idempotent [where st = ex_running and file_id = 1
        and h = ex_host_stubborn
        and job = "\<lparr>j_process = 100, j_run_id = 1,
          j_log_path = ''/data/logs/file_1_1000.log'', j_started_at = 1000\<rparr>",
        THEN conjunct2, THEN conjunct2, THEN conjunct2, THEN conjunct2, THEN conjunct2,
        THEN conjunct2]
      ex_running_job react
    by simp
  have d: "snd (stop_file_process ex_host 1 (snd (stop_file_process ex_host_stubborn 1 ex_running))) =
        snd (stop_file_process ex_host_stubborn 1 ex_running)"
    using stop_file_process_idempotent [where st = ex_running and file_id = 1
        and h = ex_host_stubborn and h' = ex_host,
        THEN conjunct2, THEN conjunct2, THEN conjunct1]
    by simp
  have e: "Mapping.lookup (processes (snd (stop_file_process ex_host 1 ex_running))) 1 = None
      \<and> get_file_record (snd (stop_file_process ex_host 1 ex_running)) 1 = Some ex_bot"
    using stop_file_process_idempotent [where st = ex_running and file_id = 1 and h = ex_host,
        THEN conjunct2, THEN conjunct2, THEN conjunct2]
      ex_running_file bot
    by simp
  show ?thesis
    using a b c d e by blast
qed

section \<open>Properties of logs\<close>

text \<open>For a positive count the slice is the last \<open>lines\<close> elements, or all of them when there are fewer.\<close>

lemma last_lines_positive:
  "0 < lines \<Longrightarrow>
   (\<exists>before. content = before @ last_lines lines content)
   \<and> length (last_lines lines content) = min (nat lines) (length content)"
proof -
  assume "0 < lines"
  then have eq: "last_lines lines content = drop (length content - nat lines) content"
    by (simp add: last_lines_def)
  have "content = take (length content - nat lines) content @ last_lines lines content"
    by (simp add: eq)
  then have "\<exists>before. content = before @ last_lines lines content" ..
  moreover have "length (last_lines lines content) = min (nat lines) (length content)"
    by (simp add: eq)
  ultimately show ?thesis by simp
qed

lemma get_file_logs_live:
  "Mapping.lookup (processes st) file_id = Some job \<Longrightarrow>
   read_file h (j_log_path job) = Lines content \<Longrightarrow>
   get_file_logs h file_id lines st =
     Returns (if content \<noteq> [] then concat (last_lines lines content) else ''No logs yet'')"
  by (simp add: get_file_logs_def live_logs_def)

lemma get_file_logs_live_unreadable:
  "Mapping.lookup (processes st) file_id = Some job \<Longrightarrow>
   read_file h (j_log_path job) = Unreadable e \<Longrightarrow>
   get_file_logs h file_id lines st = Returns (''Error reading logs: '' @ e)"
  by (simp add: get_file_logs_def live_logs_def)

lemma get_file_logs_recorded:
  "Mapping.lookup (processes st) file_id = None \<Longrightarrow>
   get_file_logs h file_id lines st =
     (case latest_run (runs st) file_id of
        None \<Rightarrow> Returns ''No log file found''
      | Some row \<Rightarrow>
          if r_log_path row = [] then Returns ''No log file found''
          else (case read_file h (r_log_path row) of
                  Missing \<Rightarrow> Returns ''No log file found''
                | Unreadable e \<Rightarrow> Returns (''Error reading logs: '' @ e)
                | Lines content \<Rightarrow>
                    Returns (if content \<noteq> [] then concat (last_lines lines content)
                             else ''No logs found'')))"
  by (simp add: get_file_logs_def live_logs_def recorded_logs_def
      split: option.splits file_read.splits)

lemma get_file_logs_returns: "\<exists>logs. get_file_logs h file_id lines st = Returns logs"
proof (cases "case live_logs h file_id lines st of
                Some r \<Rightarrow> r | None \<Rightarrow> recorded_logs h file_id lines st")
  case (Returns logs)
  then show ?thesis by (simp add: get_file_logs_def)
next
  case (Raises e)
  then show ?thesis by (simp add: get_file_logs_def)
qed

text \<open>The most recent run of a file is one of its runs, and none of its runs started later.\<close>

lemma fold_latest:
  "fold (\<lambda>x best. if r_started_at x > r_started_at best then x else best) rs r \<in> set (r # rs)
   \<and> (\<forall>x \<in> set (r # rs).
        r_started_at x \<le>
          r_started_at (fold (\<lambda>x best. if r_started_at x > r_started_at best then x else best) rs r))"
proof (induction rs arbitrary: r)
  case Nil
  show ?case by simp
next
  case (Cons a rs)
  show ?case
  proof (cases "r_started_at a > r_started_at r")
    case True
    with Cons.IH [of a] show ?thesis by (auto intro: order_trans less_imp_le)
  next
    case False
    with Cons.IH [of r] show ?thesis by (auto intro: order_trans)
  qed
qed

lemma latest_run_Some:
  "latest_run rs file_id = Some row \<Longrightarrow>
   row \<in> set rs \<and> r_file_id row = file_id
   \<and> (\<forall>x \<in> set rs. r_file_id x = file_id \<longrightarrow> r_started_at x \<le> r_started_at row)"
proof -
  assume a: "latest_run rs file_id = Some row"
  then obtain r rest where f: "filter (\<lambda>r. r_file_id r = file_id) rs = r # rest"
    and row: "row = fold (\<lambda>x best. if r_started_at x > r_started_at best then x else best) rest r"
    by (auto simp add: latest_run_def split: list.splits)
  from fold_latest [of rest r] row
  have "row \<in> set (r # rest)" and "\<forall>x \<in> set (r # rest). r_started_at x \<le> r_started_at row"
    by simp_all
  then show ?thesis
    unfolding f [symmetric] by auto
qed

lemma latest_run_None:
  "latest_run rs file_id = None \<longleftrightarrow> (\<forall>x \<in> set rs. r_file_id x \<noteq> file_id)"
proof (cases "filter (\<lambda>r. r_file_id r = file_id) rs")
  case Nil
  then show ?thesis
    by (simp add: latest_run_def filter_empty_conv)
next
  case (Cons r rest)
  then have "r \<in> set (filter (\<lambda>r. r_file_id r = file_id) rs)"
    by simp
  then have "r \<in> set rs \<and> r_file_id r = file_id"
    by simp
  with Cons show ?thesis
    by (auto simp add: latest_run_def)
qed

lemma get_file_logs_fallback:
  assumes "Mapping.lookup (processes st) file_id = None
     \<or> (\<exists>job. Mapping.lookup (processes st) file_id = Some job
              \<and> read_file h (j_log_path job) = Missing)"
  shows "get_file_logs h file_id lines st =
     (case latest_run (runs st) file_id of
        None \<Rightarrow> Returns ''No log file found''
      | Some row \<Rightarrow>
          if r_log_path row = [] then Returns ''No log file found''
          else (case read_file h (r_log_path row) of
                  Missing \<Rightarrow> Returns ''No log file found''
                | Unreadable e \<Rightarrow> Returns (''Error reading logs: '' @ e)
                | Lines content \<Rightarrow>
                    Returns (if content \<noteq> [] then concat (last_lines lines content)
                             else ''No logs found'')))"
proof -
  from assms have "live_logs h file_id lines st = None"
    by (auto simp add: live_logs_def)
  then show ?thesis
    by (simp add: get_file_logs_def recorded_logs_def split: option.splits file_read.splits)
qed

text \<open>
  C10. \<open>get_file_logs\<close> always returns a text and never raises. With a live job whose log
  file can be read, the text is the last \<open>lines\<close> lines of that file (for a positive
  \<open>lines\<close>; the bot always asks for 50; for \<open>lines \<le> 0\<close> the slice \<open>content[-lines:]\<close>
  drops the first \<open>-lines\<close> lines instead), or \<open>No logs yet\<close> when the file is empty; a log
  file that cannot be read is reported as \<open>Error reading logs: ...\<close>. Without a live job
  (or when the live job's log file does not exist) the log location of the file's most
  recent run is used in the same way, and \<open>No log file found\<close> is returned when there is
  no run, no recorded location or no file at that location.
\<close>

theorem get_file_logs_never_raises:
  "(\<exists>logs. get_file_logs h file_id lines st = Returns logs)
   \<and> (Mapping.lookup (processes st) file_id = Some job \<and>
        read_file h (j_log_path job) = Lines content \<and> content \<noteq> [] \<and> 0 < lines \<longrightarrow>
        get_file_logs h file_id lines st = Returns (concat (last_lines lines content))
        \<and> (\<exists>before. content = before @ last_lines lines content)
        \<and> length (last_lines lines content) = min (nat lines) (length content))
   \<and> (Mapping.lookup (processes st) file_id = Some job \<and>
        read_file h (j_log_path job) = Lines [] \<longrightarrow>
        get_file_logs h file_id lines st = Returns ''No logs yet'')
   \<and> (Mapping.lookup (processes st) file_id = Some job \<and>
        read_file h (j_log_path job) = Unreadable e \<longrightarrow>
        get_file_logs h file_id lines st = Returns (''Error reading logs: '' @ e))
   \<and> (Mapping.lookup (processes st) file_id = None \<or>
        (\<exists>job. Mapping.lookup (processes st) file_id = Some job
               \<and> read_file h (j_log_path job) = Missing) \<longrightarrow>
        get_file_logs h file_id lines st =
          (case latest_run (runs st) file_id of
             None \<Rightarrow> Returns ''No log file found''
           | Some row \<Rightarrow>
               if r_log_path row = [] then Returns ''No log file found''
               else (case read_file h (r_log_path row) of
                       Missing \<Rightarrow> Returns ''No log file found''
                     | Unreadable e \<Rightarrow> Returns (''Error reading logs: '' @ e)
                     | Lines content \<Rightarrow>
                         Returns (if content \<noteq> [] then concat (last_lines lines content)
                                  else ''No logs found''))))
   \<and> (latest_run (runs st) file_id = Some row \<longrightarrow>
        row \<in> set (runs st) \<and> r_file_id row = file_id
        \<and> (\<forall>x \<in> set (runs st). r_file_id x = file_id \<longrightarrow> r_started_at x \<le> r_started_at row))
   \<and> (latest_run (runs st) file_id = None \<longleftrightarrow> (\<forall>x \<in> set (runs st). r_file_id x \<noteq> file_id))
   \<and> (lines \<le> 0 \<longrightarrow> last_lines lines content = drop (nat (- lines)) content)"
proof (intro conjI impI)
  show "\<exists>logs. get_file_logs h file_id lines st = Returns logs"
    by (rule get_file_logs_returns)
next
  assume a: "Mapping.lookup (processes st) file_id = Some job \<and>
        read_file h (j_log_path job) = Lines content \<and> content \<noteq> [] \<and> 0 < lines"
  then show "get_file_logs h file_id lines st = Returns (concat (last_lines lines content))"
    by (simp add: get_file_logs_live)
  from a last_lines_positive [of lines content]
  show "\<exists>before. content = before @ last_lines lines content"
    and "length (last_lines lines content) = min (nat lines) (length content)"
    by simp_all
next
  assume "Mapping.lookup (processes st) file_id = Some job \<and>
        read_file h (j_log_path job) = Lines []"
  then show "get_file_logs h file_id lines st = Returns ''No logs yet''"
    by (simp add: get_file_logs_live)
next
  assume "Mapping.lookup (processes st) file_id = Some job \<and>
        read_file h (j_log_path job) = Unreadable e"
  then show "get_file_logs h file_id lines st = Returns (''Error reading logs: '' @ e)"
    by (simp add: get_file_logs_live_unreadable)
next
  assume "Mapping.lookup (processes st) file_id = None \<or>
        (\<exists>job. Mapping.lookup (processes st) file_id = Some job
               \<and> read_file h (j_log_path job) = Missing)"
  then show "get_file_logs h file_id lines st =
          (case latest_run (runs st) file_id of
             None \<Rightarrow> Returns ''No log file found''
           | Some row \<Rightarrow>
               if r_log_path row = [] then Returns ''No log file found''
               else (case read_file h (r_log_path row) of
                       Missing \<Rightarrow> Returns ''No log file found''
                     | Unreadable e \<Rightarrow> Returns (''Error reading logs: '' @ e)
                     | Lines content \<Rightarrow>
                         Returns (if content \<noteq> [] then concat (last_lines lines content)
                                  else ''No logs found'')))"
    by (rule get_file_logs_fallback)
next
  assume a: "latest_run (runs st) file_id = Some row"
  from latest_run_Some [OF a]
  show "row \<in> set (runs st)" and "r_file_id row = file_id"
    and "\<forall>x \<in> set (runs st). r_file_id x = file_id \<longrightarrow> r_started_at x \<le> r_started_at row"
    by simp_all
next
  show "latest_run (runs st) file_id = None \<longleftrightarrow> (\<forall>x \<in> set (runs st). r_file_id x \<noteq> file_id)"
    by (rule latest_run_None)
next
  assume "lines \<le> 0"
  then show "last_lines lines content = drop (nat (- lines)) content"
    by (simp add: last_lines_def)
qed

text \<open>
  The scenario: the running script has written three lines; later its monitor has closed
  the run and the log is asked for again; a file that was never started has no log.
\<close>

theorem get_file_logs_never_raises_witness:
  "get_file_logs
      (ex_host\<lparr>read_file := (\<lambda>p. if p = ''/data/logs/file_1_1000.log''
                                  then Lines [''one'', ''two'', ''three''] else Missing)\<rparr>)
      1 2 ex_running = Returns ''twothree''
   \<and> get_file_logs (ex_host\<lparr>read_file := (\<lambda>p. Unreadable ''Permission denied'')\<rparr>)
        1 50 ex_running = Returns ''Error reading logs: Permission denied''
   \<and> get_file_logs (ex_host\<lparr>read_file := (\<lambda>p. Lines [])\<rparr>) 1 50 ex_running =
        Returns ''No logs yet''
   \<and> get_file_logs ex_host 2 50 ex_running = Returns ''No log file found''
   \<and> latest_run (runs ex_running) 2 = None"
proof -
  let ?job = "\<lparr>j_process = 100, j_run_id = 1, j_log_path = ''/data/logs/file_1_1000.log'',
               j_started_at = 1000\<rparr>"
  let ?h = "ex_host\<lparr>read_file := (\<lambda>p. if p = ''/data/logs/file_1_1000.log''
                                  then Lines [''one'', ''two'', ''three''] else Missing)\<rparr>"
  have none: "Mapping.lookup (processes ex_running) 2 = None"
    "latest_run (runs ex_running) 2 = None"
    by code_simp+
  have slice: "concat (last_lines 2 [''one'', ''two'', ''three'']) = ''twothree''"
    by (simp add: last_lines_def)
  have a: "get_file_logs ?h 1 2 ex_running = Returns ''twothree''"
    using get_file_logs_never_raises [where h = "?h" and file_id = 1 and lines = 2
        and st = ex_running and job = "?job" and content = "[''one'', ''two'', ''three'']",
        THEN conjunct2, THEN conjunct1] ex_running_job(1) slice
    by simp
  have b: "get_file_logs (ex_host\<lparr>read_file := (\<lambda>p. Unreadable ''Permission denied'')\<rparr>)
        1 50 ex_running = Returns ''Error reading logs: Permission denied''"
    using get_file_logs_never_raises
        [where h = "ex_host\<lparr>read_file := (\<lambda>p. Unreadable ''Permission denied'')\<rparr>"
        and file_id = 1 and lines = 50 and st = ex_running and job = "?job"
        and e = "''Permission denied''",
        THEN conjunct2, THEN conjunct2, THEN conjunct2, THEN conjunct1] ex_running_job(1)
    by simp
  have c: "get_file_logs (ex_host\<lparr>read_file := (\<lambda>p. Lines [])\<rparr>) 1 50 ex_running =
        Returns ''No logs yet''"
    using get_file_logs_never_raises
        [where h = "ex_host\<lparr>read_file := (\<lambda>p. Lines [])\<rparr>"
        and file_id = 1 and lines = 50 and st = ex_running and job = "?job",
        THEN conjunct2, THEN conjunct2, THEN conjunct1] ex_running_job(1)
    by simp
  have d: "get_file_logs ex_host 2 50 ex_running = Returns ''No log file found''"
    using get_file_logs_never_raises [where h = ex_host and file_id = 2 and lines = 50
        and st = ex_running,
        THEN conjunct2, THEN conjunct2, THEN conjunct2, THEN conjunct2, THEN conjunct1] none
    by simp
  show ?thesis
    using a b c d none(2) by blast
qed

section \<open>Properties of the callback handlers\<close>

text \<open>The caller's user id reaches nothing but the closing view.\<close>

lemma callback_handler_state_independent:
  "fst (callback_handler cfg h (call\<lparr>cb_user_id := u1\<rparr>) st) =
   fst (callback_handler cfg h (call\<lparr>cb_user_id := u2\<rparr>) st)"
  by (cases "cb_data call")
     (simp_all add: callback_handler_def Let_def split: prod.splits outcome.splits)

lemma callback_handler_messages:
  "\<exists>ms. (\<forall>u. snd (callback_handler cfg h (call\<lparr>cb_user_id := u\<rparr>) st) = ms)
      \<or> (\<forall>u. snd (callback_handler cfg h (call\<lparr>cb_user_id := u\<rparr>) st) =
             ms @ trailing_view (fst (callback_handler cfg h (call\<lparr>cb_user_id := u\<rparr>) st))
                    (call\<lparr>cb_user_id := u\<rparr>))"
proof (cases "cb_data call")
  case BackToFiles
  then have "\<forall>u. snd (callback_handler cfg h (call\<lparr>cb_user_id := u\<rparr>) st) =
      [DeleteMessage (cb_chat_id call) (cb_message_id call)] @
      trailing_view (fst (callback_handler cfg h (call\<lparr>cb_user_id := u\<rparr>) st))
        (call\<lparr>cb_user_id := u\<rparr>)"
    by (simp add: callback_handler_def trailing_view_def Let_def)
  then show ?thesis by blast
next
  case (ManageData file_id)
  then have "\<forall>u. snd (callback_handler cfg h (call\<lparr>cb_user_id := u\<rparr>) st) =
      [] @ trailing_view (fst (callback_handler cfg h (call\<lparr>cb_user_id := u\<rparr>) st))
        (call\<lparr>cb_user_id := u\<rparr>)"
    by (simp add: callback_handler_def trailing_view_def Let_def)
  then show ?thesis by blast
next
  case (StartData file_id)
  obtain st1 ev raised
    where s: "start_file_process cfg h file_id (cb_chat_id call) st = (st1, ev, raised)"
    by (cases "start_file_process cfg h file_id (cb_chat_id call) st") auto
  show ?thesis
  proof (cases raised)
    case None
    with StartData s
    have "\<forall>u. snd (callback_handler cfg h (call\<lparr>cb_user_id := u\<rparr>) st) =
        (AnswerCallback ''Starting...'' # ev) @
        trailing_view (fst (callback_handler cfg h (call\<lparr>cb_user_id := u\<rparr>) st))
          (call\<lparr>cb_user_id := u\<rparr>)"
      by (simp add: callback_handler_def trailing_view_def Let_def)
    then show ?thesis by blast
  next
    case (Some e)
    with StartData s
    have "\<forall>u. snd (callback_handler cfg h (call\<lparr>cb_user_id := u\<rparr>) st) =
        AnswerCallback ''Starting...'' # ev @ [AnswerCallback ''Error processing request'']"
      by (simp add: callback_handler_def Let_def)
    then show ?thesis by blast
  qed
next
  case (StopData file_id)
  then have "\<forall>u. snd (callback_handler cfg h (call\<lparr>cb_user_id := u\<rparr>) st) =
      [AnswerCallback ''Stopping...'', SendMessage (cb_chat_id call) ProcessStopped] @
      trailing_view (fst (callback_handler cfg h (call\<lparr>cb_user_id := u\<rparr>) st))
        (call\<lparr>cb_user_id := u\<rparr>)"
    by (simp add: callback_handler_def trailing_view_def Let_def split: prod.splits)
  then show ?thesis by blast
next
  case (RestartData file_id)
  obtain stopped st1 where stop: "stop_file_process h file_id st = (stopped, st1)"
    by fastforce
  obtain st2 ev raised
    where s: "start_file_process cfg h file_id (cb_chat_id call) st1 = (st2, ev, raised)"
    by (cases "start_file_process cfg h file_id (cb_chat_id call) st1") auto
  show ?thesis
  proof (cases raised)
    case None
    with RestartData s stop
    have "\<forall>u. snd (callback_handler cfg h (call\<lparr>cb_user_id := u\<rparr>) st) =
        (AnswerCallback ''Restarting...'' # ev) @
        trailing_view (fst (callback_handler cfg h (call\<lparr>cb_user_id := u\<rparr>) st))
          (call\<lparr>cb_user_id := u\<rparr>)"
      by (simp add: callback_handler_def trailing_view_def Let_def)
    then show ?thesis by blast
  next
    case (Some e)
    with RestartData s stop
    have "\<forall>u. snd (callback_handler cfg h (call\<lparr>cb_user_id := u\<rparr>) st) =
        AnswerCallback ''Restarting...'' # ev @ [AnswerCallback ''Error processing request'']"
      by (simp add: callback_handler_def Let_def)
    then show ?thesis by blast
  qed
next
  case (DeleteData file_id)
  then have "\<forall>u. snd (callback_handler cfg h (call\<lparr>cb_user_id := u\<rparr>) st) =
      [AnswerCallback ''Deleting...'', SendMessage (cb_chat_id call) FileDeleted] @
      trailing_view (fst (callback_handler cfg h (call\<lparr>cb_user_id := u\<rparr>) st))
        (call\<lparr>cb_user_id := u\<rparr>)"
    by (simp add: callback_handler_def trailing_view_def Let_def)
  then show ?thesis by blast
next
  case (LogsData file_id)
  then have "\<forall>u. snd (callback_handler cfg h (call\<lparr>cb_user_id := u\<rparr>) st) =
      snd (callback_handler cfg h call st)"
    by (simp add: callback_handler_def Let_def split: outcome.splits)
  then show ?thesis by blast
next
  case MalformedData
  then have "\<forall>u. snd (callback_handler cfg h (call\<lparr>cb_user_id := u\<rparr>) st) =
      [AnswerCallback ''Error processing request'']"
    by (simp add: callback_handler_def Let_def)
  then show ?thesis by blast
next
  case UnknownData
  then have "\<forall>u. snd (callback_handler cfg h (call\<lparr>cb_user_id := u\<rparr>) st) = []"
    by (simp add: callback_handler_def Let_def)
  then show ?thesis by blast
qed

text \<open>Each control callback performs its operation on the file id it was given.\<close>

lemma callback_handler_operation:
  "cb_data call = StartData file_id \<Longrightarrow>
     fst (callback_handler cfg h call st) =
       fst (start_file_process cfg h file_id (cb_chat_id call) st)"
  "cb_data call = StopData file_id \<Longrightarrow>
     fst (callback_handler cfg h call st) = snd (stop_file_process h file_id st)"
  "cb_data call = RestartData file_id \<Longrightarrow>
     fst (callback_handler cfg h call st) =
       fst (start_file_process cfg h file_id (cb_chat_id call)
              (snd (stop_file_process h file_id st)))"
  "cb_data call = DeleteData file_id \<Longrightarrow>
     get_file_record (fst (callback_handler cfg h call st)) file_id = None"
  "cb_data call = LogsData file_id \<Longrightarrow> get_file_logs h file_id 50 st = Returns logs \<Longrightarrow>
     callback_handler cfg h call st =
       (st, [AnswerCallback ''Getting logs...'',
             SendMessage (cb_chat_id call)
               (LogsFor (case get_file_record st file_id of
                           Some file_record \<Rightarrow> f_orig_name file_record
                         | None \<Rightarrow> ''Unknown'')
                        (truncate_logs logs))])"
  by (simp_all add: callback_handler_def Let_def get_file_record_def remove_file_record_def
      split: prod.splits option.splits)

lemma show_file_management_gate:
  "get_file_record st file_id = Some r \<Longrightarrow> f_user_id r \<noteq> user_id \<Longrightarrow>
     show_file_management st chat_id file_id user_id = [SendMessage chat_id AccessDenied]"
  "get_file_record st file_id = Some r \<Longrightarrow> f_user_id r = user_id \<Longrightarrow>
     show_file_management st chat_id file_id user_id =
       [SendMessage chat_id
          (FileManagement file_id (f_orig_name r) (f_file_type r)
             (Mapping.lookup (processes st) file_id \<noteq> None) (f_pid r))]"
  by (simp_all add: show_file_management_def)

text \<open>
  C4. No control callback checks the owner. For every callback the state that
  \<open>callback_handler\<close> leaves is the same whatever the caller's user id, and so are the
  messages it sends up to the closing view. \<open>start\<close>, \<open>stop\<close> and \<open>restart\<close> leave the
  state that the operation itself leaves on the given file id, \<open>delete\<close> removes the row
  of the file, and \<open>logs\<close> sends the log text of the file to the caller's chat. Only
  \<open>show_file_management\<close> compares the caller with the owner of the row: a caller who is
  not the owner gets \<open>Access denied\<close> in place of the view, after the operation has been
  carried out.
\<close>

theorem callback_control_ignores_caller:
  "fst (callback_handler cfg h (call\<lparr>cb_user_id := u1\<rparr>) st) =
     fst (callback_handler cfg h (call\<lparr>cb_user_id := u2\<rparr>) st)
   \<and> (\<exists>ms. (\<forall>u. snd (callback_handler cfg h (call\<lparr>cb_user_id := u\<rparr>) st) = ms)
         \<or> (\<forall>u. snd (callback_handler cfg h (call\<lparr>cb_user_id := u\<rparr>) st) =
               ms @ trailing_view (fst (callback_handler cfg h (call\<lparr>cb_user_id := u\<rparr>) st))
                      (call\<lparr>cb_user_id := u\<rparr>)))
   \<and> (cb_data call = StartData file_id \<longrightarrow>
        fst (callback_handler cfg h call st) =
          fst (start_file_process cfg h file_id (cb_chat_id call) st))
   \<and> (cb_data call = StopData file_id \<longrightarrow>
        fst (callback_handler cfg h call st) = snd (stop_file_process h file_id st))
   \<and> (cb_data call = RestartData file_id \<longrightarrow>
        fst (callback_handler cfg h call st) =
          fst (start_file_process cfg h file_id (cb_chat_id call)
                 (snd (stop_file_process h file_id st))))
   \<and> (cb_data call = DeleteData file_id \<longrightarrow>
        get_file_record (fst (callback_handler cfg h call st)) file_id = None)
   \<and> (cb_data call = LogsData file_id \<and> get_file_logs h file_id 50 st = Returns logs \<longrightarrow>
        callback_handler cfg h call st =
          (st, [AnswerCallback ''Getting logs...'',
                SendMessage (cb_chat_id call)
                  (LogsFor (case get_file_record st file_id of
                              Some file_record \<Rightarrow> f_orig_name file_record
                            | None \<Rightarrow> ''Unknown'')
                           (truncate_logs logs))]))
   \<and> (get_file_record st file_id = Some r \<and> f_user_id r \<noteq> user_id \<longrightarrow>
        show_file_management st chat_id file_id user_id = [SendMessage chat_id AccessDenied])
   \<and> (get_file_record st file_id = Some r \<and> f_user_id r = user_id \<longrightarrow>
        show_file_management st chat_id file_id user_id =
          [SendMessage chat_id
             (FileManagement file_id (f_orig_name r) (f_file_type r)
                (Mapping.lookup (processes st) file_id \<noteq> None) (f_pid r))])"
proof (intro conjI)
  show "fst (callback_handler cfg h (call\<lparr>cb_user_id := u1\<rparr>) st) =
     fst (callback_handler cfg h (call\<lparr>cb_user_id := u2\<rparr>) st)"
    by (rule callback_handler_state_independent)
  show "\<exists>ms. (\<forall>u. snd (callback_handler cfg h (call\<lparr>cb_user_id := u\<rparr>) st) = ms)
         \<or> (\<forall>u. snd (callback_handler cfg h (call\<lparr>cb_user_id := u\<rparr>) st) =
               ms @ trailing_view (fst (callback_handler cfg h (call\<lparr>cb_user_id := u\<rparr>) st))
                      (call\<lparr>cb_user_id := u\<rparr>))"
    by (rule callback_handler_messages)
qed (simp_all add: callback_handler_operation show_file_management_gate)

text \<open>
  The scenario: the tenant with user id 43 presses stop, logs and delete for file 1, which
  belongs to the tenant with user id 42 and is running.
\<close>

lemma ex_running_logs:
  "get_file_logs
      (ex_host\<lparr>read_file := (\<lambda>p. if p = ''/data/logs/file_1_1000.log''
                                  then Lines [''one'', ''two'', ''three''] else Missing)\<rparr>)
      1 50 ex_running = Returns ''onetwothree''"
  by code_simp

theorem callback_control_ignores_caller_witness:
  "map_option f_user_id (get_file_record ex_running 1) = Some 42
   \<and> fst (callback_handler ex_cfg ex_host
          \<lparr>cb_data = StopData 1, cb_chat_id = 9, cb_user_id = 43, cb_message_id = 5\<rparr>
          ex_running) = snd (stop_file_process ex_host 1 ex_running)
   \<and> show_file_management ex_running 9 1 43 = [SendMessage 9 AccessDenied]
   \<and> get_file_record (fst (callback_handler ex_cfg ex_host
          \<lparr>cb_data = DeleteData 1, cb_chat_id = 9, cb_user_id = 43, cb_message_id = 5\<rparr>
          ex_running)) 1 = None
   \<and> callback_handler ex_cfg
          (ex_host\<lparr>read_file := (\<lambda>p. if p = ''/data/logs/file_1_1000.log''
                                      then Lines [''one'', ''two'', ''three''] else Missing)\<rparr>)
          \<lparr>cb_data = LogsData 1, cb_chat_id = 9, cb_user_id = 43, cb_message_id = 5\<rparr>
          ex_running =
        (ex_running, [AnswerCallback ''Getting logs...'',
                      SendMessage 9 (LogsFor ''bot.py'' ''onetwothree'')])"
proof -
  have owner: "f_user_id (ex_bot\<lparr>f_pid := Some 100, f_status := Running\<rparr>) = 42"
    "f_orig_name (ex_bot\<lparr>f_pid := Some 100, f_status := Running\<rparr>) = ''bot.py''"
    by (simp_all add: ex_bot_def)
  have short: "truncate_logs ''onetwothree'' = ''onetwothree''"
    by (simp add: truncate_logs_def)
  have a: "fst (callback_handler ex_cfg ex_host
          \<lparr>cb_data = StopData 1, cb_chat_id = 9, cb_user_id = 43, cb_message_id = 5\<rparr>
          ex_running) = snd (stop_file_process ex_host 1 ex_running)"
    using callback_control_ignores_caller [where cfg = ex_cfg and h = ex_host and st = ex_running
        and call = "\<lparr>cb_data = StopData 1, cb_chat_id = 9, cb_user_id = 43, cb_message_id = 5\<rparr>"
        and file_id = 1,
        THEN conjunct2, THEN conjunct2, THEN conjunct2, THEN conjunct1]
    by simp
  have b: "show_file_management ex_running 9 1 43 = [SendMessage 9 AccessDenied]"
    using callback_control_ignores_caller [where st = ex_running and file_id = 1
        and r = "ex_bot\<lparr>f_pid := Some 100, f_status := Running\<rparr>" and user_id = 43
        and chat_id = 9,
        THEN conjunct2, THEN conjunct2, THEN conjunct2, THEN conjunct2, THEN conjunct2,
        THEN conjunct2, THEN conjunct2, THEN conjunct1]
      ex_running_file owner
    by simp
  have c: "get_file_record (fst (callback_handler ex_cfg ex_host
          \<lparr>cb_data = DeleteData 1, cb_chat_id = 9, cb_user_id = 43, cb_message_id = 5\<rparr>
          ex_running)) 1 = None"
    using callback_control_ignores_caller [where cfg = ex_cfg and h = ex_host and st = ex_running
        and call = "\<lparr>cb_data = DeleteData 1, cb_chat_id = 9, cb_user_id = 43, cb_message_id = 5\<rparr>"
        and file_id = 1,
        THEN conjunct2, THEN conjunct2, THEN conjunct2, THEN conjunct2, THEN conjunct2,
        THEN conjunct1]
    by simp
  have d: "callback_handler ex_cfg
          (ex_host\<lparr>read_file := (\<lambda>p. if p = ''/data/logs/file_1_1000.log''
                                      then Lines [''one'', ''two'', ''three''] else Missing)\<rparr>)
          \<lparr>cb_data = LogsData 1, cb_chat_id = 9, cb_user_id = 43, cb_message_id = 5\<rparr>
          ex_running =
        (ex_running, [AnswerCallback ''Getting logs...'',
                      SendMessage 9 (LogsFor ''bot.py'' ''onetwothree'')])"
    using callback_control_ignores_caller [where cfg = ex_cfg and st = ex_running
        and h = "ex_host\<lparr>read_file := (\<lambda>p. if p = ''/data/logs/file_1_1000.log''
                                      then Lines [''one'', ''two'', ''three''] else Missing)\<rparr>"
        and call = "\<lparr>cb_data = LogsData 1, cb_chat_id = 9, cb_user_id = 43, cb_message_id = 5\<rparr>"
        and file_id = 1 and logs = "''onetwothree''",
        THEN conjunct2, THEN conjunct2, THEN conjunct2, THEN conjunct2, THEN conjunct2,
        THEN conjunct2, THEN conjunct1]
      ex_running_logs ex_running_file owner short
    by simp
  have e: "map_option f_user_id (get_file_record ex_running 1) = Some 42"
    by (simp add: ex_running_file owner)
  show ?thesis
    using a b c d e by blast
qed

section \<open>Properties of the dependency installer\<close>






















text \<open>
  C7 does not hold of the code for a comment line that is indented: the comprehension
  strips a line to see whether it is empty, but looks for the \<open>#\<close> at the start of the
  line as it was read. Of the four lines of the manifest the comment \<open>  # pinned versions\<close>
  is kept and handed to \<open>pip install\<close> as a package specifier, where it fails. The rest
  of the claim is what the code does: one \<open>pip install\<close> per kept line with a timeout of
  120 seconds, the failure collected into the summary, and the start going on to spawn
  the process.
\<close>

theorem indented_comment_is_installed:
  "read_requirements ex_manifest = [''# pinned versions'', ''requests'']
   \<and> install_requirements_from_file ex_host_manifest ''/data/uploads/42/requirements.txt'' =
        ((False, ''Installed 1 packages, failed 1: # pinned versions''),
         [([''python3'', ''-m'', ''pip'', ''install'', ''# pinned versions''], 120),
          ([''python3'', ''-m'', ''pip'', ''install'', ''requests''], 120)])
   \<and> spawned (fst (start_file_process ex_cfg ex_host_manifest 1 7 ex_idle)) =
        [(100, [''python3'', ''/data/uploads/42/1_bot.py''])]
   \<and> snd (start_file_process ex_cfg ex_host_manifest 1 7 ex_idle) =
        ([SendMessage 7 InstallingRequirements,
          SendMessage 7 (RequirementsIssues ''Installed 1 packages, failed 1: # pinned versions''),
          SendMessage 7 CheckingImports,
          SendMessage 7 (ProcessStarted ''bot.py'' 100 ''file_1_1000.log'')], None)"
  by code_simp

end
